theory Spec2Isabelle
  imports Complex_Main "HOL-Library.Word" "HOL-Library.Sublist"
begin

unbundle bit_operations_syntax

section \<open>Python values of \<open>func.py\<close>\<close>

text \<open>
  A Python \<open>str\<close> is a sequence of Unicode code points. \<open>json.loads\<close> also accepts
  an escaped lone surrogate (\<open>"\ud800"\<close>), so the surrogate range D800..DFFF occurs in
  strings that reach the handler. A literal of the source is written \<open>lit ''...''\<close>.
\<close>

type_synonym pystr = "nat list"

definition lit :: "string \<Rightarrow> pystr" where
  "lit s = map of_char s"

type_synonym byte = "8 word"
type_synonym w32 = "32 word"

section \<open>\<open>str.encode("utf-8")\<close>\<close>

text \<open>
  CPython's strict UTF-8 encoder: one to four bytes per code point, and
  \<open>UnicodeEncodeError\<close> at the first run of surrogates. The error carries the
  offending code point and the run's start and end (exclusive) positions.
\<close>

definition is_surrogate :: "nat \<Rightarrow> bool" where
  "is_surrogate c = (55296 \<le> c \<and> c < 57344)"

definition utf8_char :: "nat \<Rightarrow> byte list" where
  "utf8_char c =
     (if c < 128 then [of_nat c]
      else if c < 2048 then [of_nat (192 + c div 64), of_nat (128 + c mod 64)]
      else if c < 65536 then
        [of_nat (224 + c div 4096), of_nat (128 + (c div 64) mod 64), of_nat (128 + c mod 64)]
      else
        [of_nat (240 + c div 262144), of_nat (128 + (c div 4096) mod 64),
         of_nat (128 + (c div 64) mod 64), of_nat (128 + c mod 64)])"

datatype encode_error = SurrogatesNotAllowed nat nat nat

fun utf8_from :: "nat \<Rightarrow> pystr \<Rightarrow> encode_error + byte list" where
  "utf8_from i [] = Inr []"
| "utf8_from i (c # cs) =
     (if is_surrogate c
      then Inl (SurrogatesNotAllowed c i (Suc i + length (takeWhile is_surrogate cs)))
      else (case utf8_from (Suc i) cs of
              Inl e \<Rightarrow> Inl e
            | Inr bs \<Rightarrow> Inr (utf8_char c @ bs)))"

definition utf8_encode :: "pystr \<Rightarrow> encode_error + byte list" where
  "utf8_encode s = utf8_from 0 s"

section \<open>\<open>hashlib.sha256(...).hexdigest()\<close>\<close>

text \<open>
  SHA-256 as FIPS 180-4 defines it, on 32-bit words with wrap-around addition. The round
  constants and the initial hash value are written in decimal.
\<close>

definition rotr :: "nat \<Rightarrow> w32 \<Rightarrow> w32" where
  "rotr n x = (drop_bit n x) OR (push_bit (32 - n) x)"

definition Ch :: "w32 \<Rightarrow> w32 \<Rightarrow> w32 \<Rightarrow> w32" where
  "Ch x y z = (x AND y) XOR (NOT x AND z)"

definition Maj :: "w32 \<Rightarrow> w32 \<Rightarrow> w32 \<Rightarrow> w32" where
  "Maj x y z = (x AND y) XOR (x AND z) XOR (y AND z)"

definition bsig0 :: "w32 \<Rightarrow> w32" where
  "bsig0 x = rotr 2 x XOR rotr 13 x XOR rotr 22 x"

definition bsig1 :: "w32 \<Rightarrow> w32" where
  "bsig1 x = rotr 6 x XOR rotr 11 x XOR rotr 25 x"

definition ssig0 :: "w32 \<Rightarrow> w32" where
  "ssig0 x = rotr 7 x XOR rotr 18 x XOR drop_bit 3 x"

definition ssig1 :: "w32 \<Rightarrow> w32" where
  "ssig1 x = rotr 17 x XOR rotr 19 x XOR drop_bit 10 x"

definition K256 :: "w32 list" where
  "K256 =
    [1116352408, 1899447441, 3049323471, 3921009573, 961987163, 1508970993,
     2453635748, 2870763221, 3624381080, 310598401, 607225278, 1426881987,
     1925078388, 2162078206, 2614888103, 3248222580, 3835390401, 4022224774,
     264347078, 604807628, 770255983, 1249150122, 1555081692, 1996064986,
     2554220882, 2821834349, 2952996808, 3210313671, 3336571891, 3584528711,
     113926993, 338241895, 666307205, 773529912, 1294757372, 1396182291,
     1695183700, 1986661051, 2177026350, 2456956037, 2730485921, 2820302411,
     3259730800, 3345764771, 3516065817, 3600352804, 4094571909, 275423344,
     430227734, 506948616, 659060556, 883997877, 958139571, 1322822218,
     1537002063, 1747873779, 1955562222, 2024104815, 2227730452, 2361852424,
     2428436474, 2756734187, 3204031479, 3329325298]"

definition H256 :: "w32 list" where
  "H256 =
    [1779033703, 3144134277, 1013904242, 2773480762,
     1359893119, 2600822924, 528734635, 1541459225]"

text \<open>Padding: the byte 0x80, zero bytes up to 56 modulo 64, the bit length in 64 bits.\<close>

definition be64 :: "64 word \<Rightarrow> byte list" where
  "be64 n = map (\<lambda>i. ucast (drop_bit (8 * i) n)) [7, 6, 5, 4, 3, 2, 1, 0]"

definition sha_pad :: "byte list \<Rightarrow> byte list" where
  "sha_pad bs =
     bs @ [0x80] @ replicate ((119 - length bs mod 64) mod 64) 0 @ be64 (of_nat (8 * length bs))"

definition be32 :: "byte list \<Rightarrow> w32" where
  "be32 bs = foldl (\<lambda>acc b. push_bit 8 acc OR ucast b) 0 bs"

fun words_of :: "nat \<Rightarrow> byte list \<Rightarrow> w32 list" where
  "words_of 0 bs = []"
| "words_of (Suc n) bs = be32 (take 4 bs) # words_of n (drop 4 bs)"

text \<open>The message schedule, kept newest first while it is built.\<close>

fun schedule :: "nat \<Rightarrow> w32 list \<Rightarrow> w32 list" where
  "schedule 0 ws = ws"
| "schedule (Suc n) ws =
     schedule n ((ssig1 (ws ! 1) + ws ! 6 + ssig0 (ws ! 14) + ws ! 15) # ws)"

definition sha_round :: "w32 list \<Rightarrow> w32 \<times> w32 \<Rightarrow> w32 list" where
  "sha_round s kw =
     (case s of
        [a, b, c, d, e, f, g, h] \<Rightarrow>
          (let t1 = h + bsig1 e + Ch e f g + fst kw + snd kw;
               t2 = bsig0 a + Maj a b c
           in [t1 + t2, a, b, c, d + t1, e, f, g])
      | _ \<Rightarrow> s)"

definition compress :: "w32 list \<Rightarrow> byte list \<Rightarrow> w32 list" where
  "compress hs block =
     (let ws = rev (schedule 48 (rev (words_of 16 block)))
      in map2 (+) hs (foldl sha_round hs (zip K256 ws)))"

fun sha_blocks :: "nat \<Rightarrow> w32 list \<Rightarrow> byte list \<Rightarrow> w32 list" where
  "sha_blocks 0 hs bs = hs"
| "sha_blocks (Suc n) hs bs = sha_blocks n (compress hs (take 64 bs)) (drop 64 bs)"

definition bytes32 :: "w32 \<Rightarrow> byte list" where
  "bytes32 w = map (\<lambda>i. ucast (drop_bit (8 * i) w)) [3, 2, 1, 0]"

definition sha256 :: "byte list \<Rightarrow> byte list" where
  "sha256 bs =
     (let p = sha_pad bs
      in concat (map bytes32 (sha_blocks (length p div 64) H256 p)))"

definition hex_digit :: "nat \<Rightarrow> char" where
  "hex_digit n = ''0123456789abcdef'' ! (n mod 16)"

definition hex_byte :: "byte \<Rightarrow> string" where
  "hex_byte b = [hex_digit (unat b div 16), hex_digit (unat b mod 16)]"

definition hexdigest :: "byte list \<Rightarrow> pystr" where
  "hexdigest bs = lit (concat (map hex_byte bs))"


section \<open>JSON values and Python's dynamic operations on them\<close>

text \<open>
  What \<open>json.loads\<close> returns: \<open>None\<close>, a bool, an int, a float, a str, a list or a
  dict. A dict is kept as an association list read with \<open>map_of\<close>.
\<close>

datatype json =
    JNull
  | JBool bool
  | JInt int
  | JFloat real
  | JStr pystr
  | JArr "json list"
  | JObj "(pystr \<times> json) list"

text \<open>Truth value testing, as \<open>or\<close>, \<open>not\<close> and \<open>if\<close> apply it.\<close>

fun truthy :: "json \<Rightarrow> bool" where
  "truthy JNull = False"
| "truthy (JBool b) = b"
| "truthy (JInt i) = (i \<noteq> 0)"
| "truthy (JFloat r) = (r \<noteq> 0)"
| "truthy (JStr s) = (s \<noteq> [])"
| "truthy (JArr xs) = (xs \<noteq> [])"
| "truthy (JObj kvs) = (kvs \<noteq> [])"

fun type_name :: "json \<Rightarrow> string" where
  "type_name JNull = ''NoneType''"
| "type_name (JBool b) = ''bool''"
| "type_name (JInt i) = ''int''"
| "type_name (JFloat r) = ''float''"
| "type_name (JStr s) = ''str''"
| "type_name (JArr xs) = ''list''"
| "type_name (JObj kvs) = ''dict''"

text \<open>
  The exceptions the flow can raise. The two \<open>Library\<close> constructors stand for an
  exception raised inside a library call (\<open>json.loads\<close>, \<open>requests.post\<close>,
  \<open>Response.json\<close>), with its \<open>str()\<close>: one whose class derives from \<open>ValueError\<close>
  (\<open>json.JSONDecodeError\<close>, \<open>UnicodeDecodeError\<close>, requests' \<open>MissingSchema\<close>,
  \<open>InvalidHeader\<close>, \<open>JSONDecodeError\<close>), and any other subclass of \<open>Exception\<close>
  (\<open>ConnectionError\<close>, \<open>Timeout\<close>, \<open>RecursionError\<close>).
\<close>

datatype exn =
    ValueError pystr
  | RuntimeError pystr
  | KeyError string
  | AttributeError string string
  | TypeError string
  | UnicodeEncodeError nat nat nat
  | LibraryValueError pystr
  | LibraryException pystr

text \<open>\<open>isinstance(ex, ValueError)\<close>: \<open>UnicodeEncodeError\<close> derives from \<open>ValueError\<close>.\<close>

fun is_ValueError :: "exn \<Rightarrow> bool" where
  "is_ValueError (ValueError m) = True"
| "is_ValueError (UnicodeEncodeError c i j) = True"
| "is_ValueError (LibraryValueError m) = True"
| "is_ValueError (RuntimeError m) = False"
| "is_ValueError (KeyError k) = False"
| "is_ValueError (AttributeError t a) = False"
| "is_ValueError (TypeError t) = False"
| "is_ValueError (LibraryException m) = False"

definition apos :: char where
  "apos = CHR 0x27"

fun dec :: "nat \<Rightarrow> string" where
  "dec n = (if n < 10 then [hex_digit n] else dec (n div 10) @ [hex_digit (n mod 10)])"

declare dec.simps [simp del]

definition hex4 :: "nat \<Rightarrow> string" where
  "hex4 n = [hex_digit (n div 4096), hex_digit (n div 256), hex_digit (n div 16), hex_digit n]"

text \<open>\<open>str(ex)\<close>, the text the handler puts in the error body.\<close>

fun str_exn :: "exn \<Rightarrow> pystr" where
  "str_exn (ValueError m) = m"
| "str_exn (RuntimeError m) = m"
| "str_exn (KeyError k) = lit ([apos] @ k @ [apos])"
| "str_exn (AttributeError t a) =
     lit ([apos] @ t @ [apos] @ '' object has no attribute '' @ [apos] @ a @ [apos])"
| "str_exn (TypeError t) =
     lit ([apos] @ ''<'' @ [apos] @ '' not supported between instances of '' @
          [apos] @ ''float'' @ [apos] @ '' and '' @ [apos] @ t @ [apos])"
| "str_exn (UnicodeEncodeError c i j) =
     lit ([apos] @ ''utf-8'' @ [apos] @ '' codec can'' @ [apos] @ ''t encode '' @
          (if j = Suc i
           then ''character '' @ [apos, CHR 0x5C] @ ''u'' @ hex4 c @ [apos] @
                '' in position '' @ dec i
           else ''characters in position '' @ dec i @ ''-'' @ dec (j - 1)) @
          '': surrogates not allowed'')"
| "str_exn (LibraryValueError m) = m"
| "str_exn (LibraryException m) = m"

text \<open>\<open>x.get(key, default)\<close>: only a dict has the method.\<close>

definition py_get :: "json \<Rightarrow> pystr \<Rightarrow> json \<Rightarrow> exn + json" where
  "py_get x key dflt =
     (case x of
        JObj kvs \<Rightarrow> Inr (case map_of kvs key of Some v \<Rightarrow> v | None \<Rightarrow> dflt)
      | _ \<Rightarrow> Inl (AttributeError (type_name x) ''get''))"

text \<open>\<open>time.time() < exp\<close>: a float compares with an int, a float or a bool.\<close>

fun py_float_lt :: "real \<Rightarrow> json \<Rightarrow> exn + bool" where
  "py_float_lt t (JInt i) = Inr (t < of_int i)"
| "py_float_lt t (JFloat r) = Inr (t < r)"
| "py_float_lt t (JBool b) = Inr (t < (if b then 1 else 0))"
| "py_float_lt t v = Inl (TypeError (type_name v))"

section \<open>The module's global state\<close>

record app_config =
  TOKEN_URL :: pystr
  SCOPE :: pystr

record cache_entry =
  token :: json
  exp_ts :: json

record globals =
  auth_cache :: "pystr \<rightharpoonup> cache_entry"
  oauth_apps :: "(string \<times> app_config) list"

section \<open>Initialization\<close>

text \<open>
  \<open>context\<close> is \<open>dict(ctx.Config())\<close>. The dict literal is evaluated before the
  assignment, so a missing key leaves \<open>oauth_apps\<close> as it was.
\<close>

definition init_context :: "(string \<rightharpoonup> pystr) \<Rightarrow> globals \<Rightarrow> exn + globals" where
  "init_context context g =
     (if length (oauth_apps g) < 1 then
        (case context ''TOKEN_URL'' of
           None \<Rightarrow> Inl (KeyError ''TOKEN_URL'')
         | Some url \<Rightarrow>
             (case context ''SCOPE'' of
                None \<Rightarrow> Inl (KeyError ''SCOPE'')
              | Some scope \<Rightarrow>
                  Inr (g\<lparr>oauth_apps :=
                         (''iam'', \<lparr>TOKEN_URL = url, SCOPE = scope\<rparr>) #
                         filter (\<lambda>kv. fst kv \<noteq> ''iam'') (oauth_apps g)\<rparr>)))
      else Inr g)"

section \<open>Header extraction and cache helpers\<close>

definition extract_auth_header :: "json \<Rightarrow> exn + pystr" where
  "extract_auth_header body =
     (case py_get body (lit ''token'') JNull of
        Inl e \<Rightarrow> Inl e
      | Inr t \<Rightarrow>
          (case (if truthy t then Inr t
                 else (case py_get body (lit ''data'') (JObj []) of
                         Inl e \<Rightarrow> Inl e
                       | Inr d \<Rightarrow>
                           (case py_get d (lit ''Authorization'') JNull of
                              Inl e \<Rightarrow> Inl e
                            | Inr da \<Rightarrow>
                                if truthy da then Inr da
                                else py_get body (lit ''Authorization'') JNull))) of
             Inl e \<Rightarrow> Inl e
           | Inr auth_header \<Rightarrow>
               if \<not> truthy auth_header
               then Inl (ValueError (lit ''Missing or invalid Authorization header''))
               else (case auth_header of
                       JStr s \<Rightarrow>
                         if \<not> prefix (lit ''Basic '') s
                         then Inl (ValueError (lit ''Missing or invalid Authorization header''))
                         else Inr s
                     | _ \<Rightarrow> Inl (AttributeError (type_name auth_header) ''startswith''))))"

definition get_cache_key :: "pystr \<Rightarrow> exn + pystr" where
  "get_cache_key auth_header =
     (case utf8_encode auth_header of
        Inl (SurrogatesNotAllowed c i j) \<Rightarrow> Inl (UnicodeEncodeError c i j)
      | Inr bs \<Rightarrow> Inr (hexdigest (sha256 bs)))"

text \<open>
  \<open>now\<close> is the value of \<open>time.time()\<close>, read only when \<open>exp\<close> is truthy. The stored
  entry is a dict with two keys, so \<open>not token_data\<close> holds exactly when the key is
  absent. \<open>None\<close> is \<open>JNull\<close>.
\<close>

definition get_cached_token :: "(pystr \<rightharpoonup> cache_entry) \<Rightarrow> pystr \<Rightarrow> real \<Rightarrow> exn + json" where
  "get_cached_token cache cache_key now =
     (case cache cache_key of
        None \<Rightarrow> Inr JNull
      | Some token_data \<Rightarrow>
          if \<not> truthy (exp_ts token_data) then Inr JNull
          else (case py_float_lt now (exp_ts token_data) of
                  Inl e \<Rightarrow> Inl e
                | Inr valid \<Rightarrow> if valid then Inr (token token_data) else Inr JNull))"


section \<open>Token handling\<close>

text \<open>
  \<open>jwt_decode\<close> is PyJWT's \<open>jwt.decode(token, options={"verify_signature": False})\<close>:
  the claims dict, or the exception it raises. Every exception of the \<open>try\<close> block
  gives \<open>None\<close>.
\<close>

definition decode_jwt_expiry :: "(json \<Rightarrow> exn + json) \<Rightarrow> json \<Rightarrow> json" where
  "decode_jwt_expiry jwt_decode tok =
     (case jwt_decode tok of
        Inl ex \<Rightarrow> JNull
      | Inr decoded \<Rightarrow>
          (case py_get decoded (lit ''exp'') JNull of
             Inl ex \<Rightarrow> JNull
           | Inr v \<Rightarrow> v))"

text \<open>
  What \<open>requests.post\<close> gives back: the status code, the body text, and what
  \<open>response_obj.json()\<close> does with that text. \<open>post\<close> takes the URL, the
  \<open>Authorization\<close> header and the scope of the form; the other header, the grant type
  and the timeout are constants of the call.
\<close>

datatype http_response = HttpResponse int pystr "exn + json"

definition fetch_new_token ::
  "(pystr \<Rightarrow> pystr \<Rightarrow> pystr \<Rightarrow> exn + http_response) \<Rightarrow> pystr \<Rightarrow> pystr \<Rightarrow> pystr \<Rightarrow> exn + json" where
  "fetch_new_token post token_url scope auth_header =
     (case post token_url auth_header scope of
        Inl e \<Rightarrow> Inl e
      | Inr (HttpResponse status txt parsed) \<Rightarrow>
          if status \<noteq> 200 then Inl (RuntimeError (lit ''Token request failed: '' @ txt))
          else (case parsed of
                  Inl e \<Rightarrow> Inl e
                | Inr token_json \<Rightarrow>
                    (case py_get token_json (lit ''access_token'') JNull of
                       Inl e \<Rightarrow> Inl e
                     | Inr access_token \<Rightarrow>
                         if \<not> truthy access_token
                         then Inl (ValueError (lit ''No access token returned from OCI IAM''))
                         else Inr access_token)))"

text \<open>\<open>now\<close> is \<open>time.time()\<close>, on the reals.\<close>

definition cache_token ::
  "(pystr \<rightharpoonup> cache_entry) \<Rightarrow> pystr \<Rightarrow> json \<Rightarrow> json \<Rightarrow> real \<Rightarrow> (pystr \<rightharpoonup> cache_entry)" where
  "cache_token cache cache_key tok ex now =
     (let expiry = (if truthy ex then ex else JFloat (now + 300))
      in cache(cache_key \<mapsto> \<lparr>token = tok, exp_ts = expiry\<rparr>))"

section \<open>Response utility\<close>

text \<open>
  \<open>response_data\<close> is the value handed to \<open>json.dumps\<close>, which renders every value
  built here.
\<close>

record response =
  response_data :: json
  status_code :: int
  headers :: "(string \<times> string) list"

definition build_response :: "json \<Rightarrow> int \<Rightarrow> response" where
  "build_response data status =
     \<lparr>response_data = data, status_code = status,
      headers = [(''Content-Type'', ''application/json'')]\<rparr>"

section \<open>Main handler\<close>

text \<open>
  What an invocation reads from outside the module: the clock at the cache lookup and
  at the cache insert, the token endpoint, PyJWT, and \<open>str()\<close> of a value that is not
  a \<open>str\<close> (for the f-string).
\<close>

record world =
  clock_lookup :: real
  clock_insert :: real
  post :: "pystr \<Rightarrow> pystr \<Rightarrow> pystr \<Rightarrow> exn + http_response"
  jwt_decode :: "json \<Rightarrow> exn + json"
  py_str :: "json \<Rightarrow> pystr"

text \<open>
  The \<open>data\<close> argument: absent (\<open>None\<close>); bytes that \<open>json.loads\<close> rejects with a
  \<open>JSONDecodeError\<close> or a \<open>UnicodeDecodeError\<close> of the given text, both of which derive
  from \<open>ValueError\<close>; bytes nested so deeply that \<open>json.loads\<close> raises \<open>RecursionError\<close>
  with the given text, which does not; or bytes that parse.
\<close>

datatype request = NoData | Unparsable pystr | TooDeep pystr | Payload json

definition json_loads :: "request \<Rightarrow> exn + json" where
  "json_loads req =
     (case req of
        NoData \<Rightarrow> Inl (AttributeError ''NoneType'' ''getvalue'')
      | Unparsable m \<Rightarrow> Inl (LibraryValueError m)
      | TooDeep m \<Rightarrow> Inl (LibraryException m)
      | Payload body \<Rightarrow> Inr body)"

definition format_value :: "(json \<Rightarrow> pystr) \<Rightarrow> json \<Rightarrow> pystr" where
  "format_value str_of v = (case v of JStr s \<Rightarrow> s | _ \<Rightarrow> str_of v)"

text \<open>The body of the \<open>try\<close> block: the exception raised or the response returned.\<close>

definition handler_try ::
  "world \<Rightarrow> (string \<rightharpoonup> pystr) \<Rightarrow> request \<Rightarrow> globals \<Rightarrow> (exn + response) \<times> globals" where
  "handler_try w config req g =
     (case init_context config g of
        Inl e \<Rightarrow> (Inl e, g)
      | Inr g1 \<Rightarrow>
     (case json_loads req of
        Inl e \<Rightarrow> (Inl e, g1)
      | Inr body \<Rightarrow>
     (case extract_auth_header body of
        Inl e \<Rightarrow> (Inl e, g1)
      | Inr auth_header \<Rightarrow>
     (case get_cache_key auth_header of
        Inl e \<Rightarrow> (Inl e, g1)
      | Inr cache_key \<Rightarrow>
     (case get_cached_token (auth_cache g1) cache_key (clock_lookup w) of
        Inl e \<Rightarrow> (Inl e, g1)
      | Inr cached_token \<Rightarrow>
     (case map_of (oauth_apps g1) ''iam'' of
        None \<Rightarrow> (Inl (KeyError ''iam''), g1)
      | Some app \<Rightarrow>
          if truthy cached_token then
            (Inr (build_response
                    (JObj [(lit ''active'', JBool True),
                           (lit ''scope'', JStr (SCOPE app)),
                           (lit ''context'',
                            JObj [(lit ''token_response'',
                                   JStr (lit ''Bearer '' @ format_value (py_str w) cached_token))])])
                    200),
             g1)
          else
            (case fetch_new_token (post w) (TOKEN_URL app) (SCOPE app) auth_header of
               Inl e \<Rightarrow> (Inl e, g1)
             | Inr new_token \<Rightarrow>
                 (let ex = decode_jwt_expiry (jwt_decode w) new_token;
                      g2 = g1\<lparr>auth_cache :=
                                cache_token (auth_cache g1) cache_key new_token ex (clock_insert w)\<rparr>
                  in (Inr (build_response
                             (JObj [(lit ''active'', JBool True),
                                    (lit ''scope'', JStr (SCOPE app)),
                                    (lit ''context'',
                                     JObj [(lit ''token_response'',
                                            JStr (lit ''Bearer '' @ format_value (py_str w) new_token))])])
                             200),
                      g2)))))))))"

text \<open>
  The two \<open>except\<close> clauses: \<open>ValueError\<close> first, then \<open>Exception\<close>. The result is the
  response and the global state the invocation leaves.
\<close>

definition handler ::
  "world \<Rightarrow> (string \<rightharpoonup> pystr) \<Rightarrow> request \<Rightarrow> globals \<Rightarrow> response \<times> globals" where
  "handler w config req g =
     (case handler_try w config req g of
        (Inr r, g') \<Rightarrow> (r, g')
      | (Inl ex, g') \<Rightarrow>
          if is_ValueError ex
          then (build_response (JObj [(lit ''error'', JStr (str_exn ex))]) 400, g')
          else (build_response (JObj [(lit ''error'', JStr (str_exn ex))]) 500, g'))"


section \<open>Payload fields that hold strings\<close>

text \<open>
  \<open>str_field kvs key\<close> is the string that \<open>kvs.get(key)\<close> contributes to the \<open>or\<close>
  chain of \<open>extract_auth_header\<close> when the field is absent, \<open>null\<close> or a string: the
  empty string for the first two. A field holding a value of another type has none.
\<close>

definition str_field :: "(pystr \<times> json) list \<Rightarrow> pystr \<Rightarrow> pystr option" where
  "str_field kvs key =
     (case map_of kvs key of
        None \<Rightarrow> Some []
      | Some JNull \<Rightarrow> Some []
      | Some (JStr s) \<Rightarrow> Some s
      | Some _ \<Rightarrow> None)"


section \<open>Example invocations\<close>

text \<open>
  The configuration, credential, payload, states, worlds and responses that the
  concrete instances below are built from. The world's clock reads \<open>t\<close> at the lookup
  and \<open>t + 1\<close> at the insert, its \<open>jwt.decode\<close> rejects every token, and \<open>p\<close> is the
  token endpoint.
\<close>

abbreviation example_config :: "string \<rightharpoonup> pystr" where
  "example_config \<equiv>
     [''TOKEN_URL'' \<mapsto> lit ''https://idcs.example/oauth2/v1/token'',
      ''SCOPE'' \<mapsto> lit ''urn:opc:resource'']"

abbreviation example_app :: app_config where
  "example_app \<equiv>
     \<lparr>TOKEN_URL = lit ''https://idcs.example/oauth2/v1/token'', SCOPE = lit ''urn:opc:resource''\<rparr>"

abbreviation example_credential :: pystr where
  "example_credential \<equiv> lit ''Basic QWxhZGRpbjpvcGVuc2VzYW1l''"

abbreviation example_key :: pystr where
  "example_key \<equiv> hexdigest (sha256 (concat (map utf8_char example_credential)))"

abbreviation example_body :: json where
  "example_body \<equiv> JObj [(lit ''token'', JStr example_credential)]"

abbreviation fresh_state :: globals where
  "fresh_state \<equiv> \<lparr>auth_cache = Map.empty, oauth_apps = []\<rparr>"

abbreviation loaded_state :: "(pystr \<rightharpoonup> cache_entry) \<Rightarrow> globals" where
  "loaded_state cache \<equiv> \<lparr>auth_cache = cache, oauth_apps = [(''iam'', example_app)]\<rparr>"

abbreviation example_world ::
  "real \<Rightarrow> (pystr \<Rightarrow> pystr \<Rightarrow> pystr \<Rightarrow> exn + http_response) \<Rightarrow> world" where
  "example_world t p \<equiv>
     \<lparr>clock_lookup = t, clock_insert = t + 1, post = p,
      jwt_decode = (\<lambda>tok. Inl (LibraryException (lit ''Not enough segments''))),
      py_str = (\<lambda>v. [])\<rparr>"

abbreviation endpoint_down :: "pystr \<Rightarrow> pystr \<Rightarrow> pystr \<Rightarrow> exn + http_response" where
  "endpoint_down \<equiv> (\<lambda>u a s. Inl (LibraryException (lit ''Connection refused'')))"

abbreviation endpoint_issuing :: "pystr \<Rightarrow> pystr \<Rightarrow> pystr \<Rightarrow> pystr \<Rightarrow> exn + http_response" where
  "endpoint_issuing tok \<equiv>
     (\<lambda>u a s. Inr (HttpResponse 200 [] (Inr (JObj [(lit ''access_token'', JStr tok)]))))"

abbreviation success_response :: "pystr \<Rightarrow> pystr \<Rightarrow> response" where
  "success_response scope tok \<equiv>
     \<lparr>response_data =
        JObj [(lit ''active'', JBool True),
              (lit ''scope'', JStr scope),
              (lit ''context'', JObj [(lit ''token_response'', JStr (lit ''Bearer '' @ tok))])],
      status_code = 200,
      headers = [(''Content-Type'', ''application/json'')]\<rparr>"

abbreviation error_response :: "pystr \<Rightarrow> int \<Rightarrow> response" where
  "error_response msg status \<equiv>
     \<lparr>response_data = JObj [(lit ''error'', JStr msg)],
      status_code = status,
      headers = [(''Content-Type'', ''application/json'')]\<rparr>"


section \<open>Auxiliary facts\<close>

lemma lit_Nil [simp]: "lit [] = []"
  by (simp add: lit_def)

lemma lit_Cons [simp]: "lit (c # cs) = of_char c # lit cs"
  by (simp add: lit_def)

lemma length_sha_round [simp]: "length (sha_round s kw) = length s"
  by (auto simp: sha_round_def Let_def split: list.splits)

lemma length_foldl_sha_round [simp]: "length (foldl sha_round s kws) = length s"
  by (induction kws arbitrary: s) simp_all

lemma length_compress [simp]: "length (compress hs block) = length hs"
  by (simp add: compress_def Let_def)

lemma length_sha_blocks [simp]: "length (sha_blocks n hs bs) = length hs"
  by (induction n arbitrary: hs bs) simp_all

lemma length_concat_bytes32: "length (concat (map bytes32 ws)) = 4 * length ws"
  by (induction ws) (simp_all add: bytes32_def)

lemma length_sha256: "length (sha256 bs) = 32"
  by (simp add: sha256_def Let_def length_concat_bytes32 H256_def)

lemma length_concat_hex_byte: "length (concat (map hex_byte bs)) = 2 * length bs"
  by (induction bs) (simp_all add: hex_byte_def)

lemma length_hexdigest: "length (hexdigest bs) = 2 * length bs"
  by (simp add: hexdigest_def lit_def length_concat_hex_byte)

lemma hex_digit_in: "hex_digit n \<in> set ''0123456789abcdef''"
proof -
  have "n mod 16 < length ''0123456789abcdef''" by simp
  then show ?thesis unfolding hex_digit_def by (rule nth_mem)
qed

lemma set_hex_byte: "set (hex_byte b) \<subseteq> set ''0123456789abcdef''"
  using hex_digit_in [of "unat b div 16"] hex_digit_in [of "unat b mod 16"]
  by (simp add: hex_byte_def)

lemma set_hexdigest: "set (hexdigest bs) \<subseteq> set (lit ''0123456789abcdef'')"
proof -
  have "set (concat (map hex_byte bs)) \<subseteq> set ''0123456789abcdef''"
    using set_hex_byte by (induction bs) auto
  then have "of_char ` set (concat (map hex_byte bs))
               \<subseteq> (of_char ` set ''0123456789abcdef'' :: nat set)"
    by (rule image_mono)
  then show ?thesis
    unfolding hexdigest_def lit_def set_map .
qed

lemma utf8_from_ok:
  "\<not> list_ex is_surrogate s \<Longrightarrow> utf8_from i s = Inr (concat (map utf8_char s))"
  by (induction s arbitrary: i) simp_all

lemma utf8_from_surrogate:
  "list_ex is_surrogate s \<Longrightarrow> \<exists>c a b. utf8_from i s = Inl (SurrogatesNotAllowed c a b)"
proof (induction s arbitrary: i)
  case Nil
  then show ?case by simp
next
  case (Cons x xs)
  show ?case
  proof (cases "is_surrogate x")
    case True
    then show ?thesis by simp
  next
    case False
    with Cons.prems have "list_ex is_surrogate xs" by simp
    from Cons.IH [OF this, of "Suc i"] False show ?thesis by auto
  qed
qed

lemma get_cache_key_raises_iff:
  "(\<exists>c a b. get_cache_key s = Inl (UnicodeEncodeError c a b)) \<longleftrightarrow> list_ex is_surrogate s"
proof (cases "list_ex is_surrogate s")
  case True
  from utf8_from_surrogate [OF this, of 0] show ?thesis
    using True by (auto simp: get_cache_key_def utf8_encode_def)
next
  case False
  then show ?thesis
    by (simp add: get_cache_key_def utf8_encode_def utf8_from_ok)
qed

lemma lit_eq_iff: "lit a = lit b \<longleftrightarrow> a = b"
  by (simp add: lit_def inj_map_eq_map inj_on_def)

lemma lit_eq_Nil: "lit a = [] \<longleftrightarrow> a = []"
  by (simp add: lit_def)

lemma lit_append: "lit a @ lit b = lit (a @ b)"
  by (simp add: lit_def)

lemma prefix_lit: "prefix (lit a) (lit b) \<longleftrightarrow> prefix a b"
proof
  assume "prefix (lit a) (lit b)"
  then obtain zs where z: "lit b = lit a @ zs" by (auto simp: prefix_def)
  then have "map (of_char :: char \<Rightarrow> nat) (take (length a) b) = map of_char a"
    by (metis append_eq_conv_conj length_map lit_def take_map)
  then have "take (length a) b = a"
    by (simp add: inj_map_eq_map inj_on_def)
  then show "prefix a b" by (metis take_is_prefix)
next
  assume "prefix a b"
  then show "prefix (lit a) (lit b)" unfolding lit_def by (rule map_mono_prefix)
qed

lemma lit_no_surrogate: "\<not> list_ex is_surrogate (lit s)"
proof (induction s)
  case Nil
  show ?case by simp
next
  case (Cons c cs)
  have "(of_char c :: nat) < 256" by simp
  then have "\<not> is_surrogate (of_char c)" unfolding is_surrogate_def by linarith
  with Cons show ?case by simp
qed

lemma get_cache_key_lit:
  "get_cache_key (lit s) = Inr (hexdigest (sha256 (concat (map utf8_char (lit s)))))"
  by (simp add: get_cache_key_def utf8_encode_def utf8_from_ok lit_no_surrogate
        del: lit_Cons lit_Nil)

lemmas lit_simps = lit_eq_iff lit_eq_Nil lit_append prefix_lit get_cache_key_lit

lemma init_context_then_noop:
  "init_context c1 g = Inr g1 \<Longrightarrow> init_context c2 g1 = Inr g1"
  by (auto simp: init_context_def split: if_splits option.splits)

lemma handler_try_status:
  "handler_try w config req g = (Inr r, g') \<Longrightarrow> status_code r = 200"
  by (auto simp: handler_try_def build_response_def Let_def
           split: sum.splits option.splits if_splits)

lemma str_field_get:
  "str_field kvs key = Some s \<Longrightarrow>
     \<exists>v. py_get (JObj kvs) key JNull = Inr v \<and> truthy v = (s \<noteq> []) \<and> (truthy v \<longrightarrow> v = JStr s)"
  by (auto simp: str_field_def py_get_def split: option.splits json.splits)

lemma handler_try_success_cases:
  assumes "handler_try w config req g = (Inr r, g')"
  shows "\<exists>g1 body auth_header cache_key cached app tok.
           init_context config g = Inr g1 \<and> req = Payload body
           \<and> extract_auth_header body = Inr auth_header
           \<and> get_cache_key auth_header = Inr cache_key
           \<and> get_cached_token (auth_cache g1) cache_key (clock_lookup w) = Inr cached
           \<and> map_of (oauth_apps g1) ''iam'' = Some app
           \<and> (if truthy cached then tok = cached \<and> g' = g1
               else fetch_new_token (post w) (TOKEN_URL app) (SCOPE app) auth_header = Inr tok)
           \<and> handler w config req g =
               (\<lparr>response_data =
                   JObj [(lit ''active'', JBool True),
                         (lit ''scope'', JStr (SCOPE app)),
                         (lit ''context'',
                          JObj [(lit ''token_response'',
                                 JStr (lit ''Bearer '' @ format_value (py_str w) tok))])],
                 status_code = 200,
                 headers = [(''Content-Type'', ''application/json'')]\<rparr>, g')"
  using assms
  by (auto simp: handler_def handler_try_def build_response_def json_loads_def Let_def
           split: sum.splits option.splits if_splits request.splits)

section \<open>Token cache: lookup and insert\<close>

text \<open>
  C1, amended. With the clock at or after the epoch (\<open>time.time()\<close> is seconds since the epoch),
  \<open>get_cached_token\<close> returns \<open>None\<close> when the key has no entry, and for an entry with a
  numeric expiry it returns the entry's token exactly when the clock is strictly before
  the expiry and \<open>None\<close> otherwise, so a miss and an expired entry give the same result.
  After \<open>cache_token(key, "tok1", now + 100)\<close> the lookup at \<open>now + 50\<close> returns
  \<open>"tok1"\<close> and the lookup at \<open>now + 150\<close> returns \<open>None\<close>.
\<close>

theorem get_cached_token_valid_iff:
  assumes "0 \<le> now"
  shows "get_cached_token (cache(k := None)) k now = Inr JNull
   \<and> get_cached_token (cache(k \<mapsto> \<lparr>token = t, exp_ts = JFloat e\<rparr>)) k now
       = Inr (if now < e then t else JNull)
   \<and> get_cached_token (cache(k \<mapsto> \<lparr>token = t, exp_ts = JInt i\<rparr>)) k now
       = Inr (if now < of_int i then t else JNull)
   \<and> get_cached_token (cache_token cache k (JStr (lit ''tok1'')) (JFloat (now + 100)) now) k (now + 50)
       = Inr (JStr (lit ''tok1''))
   \<and> get_cached_token (cache_token cache k (JStr (lit ''tok1'')) (JFloat (now + 100)) now) k (now + 150)
       = Inr JNull"
  using assms by (auto simp: get_cached_token_def cache_token_def)

theorem get_cached_token_valid_iff_witness:
  "(0::real) \<le> 1000
   \<and> get_cached_token (Map.empty(lit ''k'' := None)) (lit ''k'') 1000 = Inr JNull
   \<and> get_cached_token [lit ''k'' \<mapsto> \<lparr>token = JStr (lit ''tok1''), exp_ts = JFloat 1100\<rparr>] (lit ''k'') 1000
       = Inr (JStr (lit ''tok1''))
   \<and> get_cached_token [lit ''k'' \<mapsto> \<lparr>token = JStr (lit ''tok1''), exp_ts = JInt 900\<rparr>] (lit ''k'') 1000
       = Inr JNull
   \<and> get_cached_token (cache_token Map.empty (lit ''k'') (JStr (lit ''tok1'')) (JFloat 1100) 1000)
        (lit ''k'') 1050
       = Inr (JStr (lit ''tok1''))
   \<and> get_cached_token (cache_token Map.empty (lit ''k'') (JStr (lit ''tok1'')) (JFloat 1100) 1000)
        (lit ''k'') 1150
       = Inr JNull"
  using get_cached_token_valid_iff [of 1000 Map.empty "lit ''k''" "JStr (lit ''tok1'')" 1100 900]
  by simp

text \<open>
  C1 as stated fails for an entry whose expiry is a non-empty string: \<open>cache_token\<close>
  stores whatever \<open>decode_jwt_expiry\<close> read from the token's \<open>exp\<close> claim, here
  \<open>"tomorrow"\<close>, and the lookup then raises the \<open>TypeError\<close> of \<open>time.time() < "tomorrow"\<close>,
  which is neither the token nor \<open>None\<close>.
\<close>

theorem get_cached_token_type_error_counterexample:
  "get_cached_token
     (cache_token Map.empty (lit ''k'') (JStr (lit ''tok1''))
        (decode_jwt_expiry (\<lambda>tok. Inr (JObj [(lit ''exp'', JStr (lit ''tomorrow''))]))
           (JStr (lit ''tok1'')))
        1000)
     (lit ''k'') 1050
   = Inl (TypeError ''str'')"
  by (simp add: get_cached_token_def cache_token_def decode_jwt_expiry_def py_get_def)

text \<open>
  C5. \<open>cache_token\<close> with \<open>exp = None\<close> stores \<open>now + 300\<close> as the expiry; whatever the
  cache held for the key, the entry afterwards is the new token with its expiry, and no
  other key changes. With the clock at or after the epoch, the lookup of the key at the
  same instant returns the token just stored.
\<close>

theorem cache_token_fallback_overwrite:
  assumes "0 \<le> now" and "k' \<noteq> k"
  shows "cache_token cache k tok JNull now = cache(k \<mapsto> \<lparr>token = tok, exp_ts = JFloat (now + 300)\<rparr>)
   \<and> cache_token cache k tok ex now k
       = Some \<lparr>token = tok, exp_ts = (if truthy ex then ex else JFloat (now + 300))\<rparr>
   \<and> cache_token cache k tok ex now k' = cache k'
   \<and> get_cached_token (cache_token cache k tok JNull now) k now = Inr tok"
  using assms by (auto simp: get_cached_token_def cache_token_def)

theorem cache_token_fallback_overwrite_witness:
  "(0::real) \<le> 1000 \<and> lit ''k2'' \<noteq> lit ''k1''
   \<and> cache_token [lit ''k1'' \<mapsto> \<lparr>token = JStr (lit ''old''), exp_ts = JInt 5\<rparr>] (lit ''k1'')
        (JStr (lit ''tok'')) JNull 1000 (lit ''k1'')
       = Some \<lparr>token = JStr (lit ''tok''), exp_ts = JFloat 1300\<rparr>
   \<and> cache_token [lit ''k1'' \<mapsto> \<lparr>token = JStr (lit ''old''), exp_ts = JInt 5\<rparr>] (lit ''k1'')
        (JStr (lit ''tok'')) JNull 1000 (lit ''k2'') = None
   \<and> get_cached_token
        (cache_token [lit ''k1'' \<mapsto> \<lparr>token = JStr (lit ''old''), exp_ts = JInt 5\<rparr>] (lit ''k1'')
           (JStr (lit ''tok'')) JNull 1000) (lit ''k1'') 1000
       = Inr (JStr (lit ''tok''))"
  using cache_token_fallback_overwrite
    [of 1000 "lit ''k2''" "lit ''k1''"
        "[lit ''k1'' \<mapsto> \<lparr>token = JStr (lit ''old''), exp_ts = JInt 5\<rparr>]" "JStr (lit ''tok'')" JNull]
  by (simp add: cache_token_def)

section \<open>Configuration loading\<close>

text \<open>
  C6. Once \<open>oauth_apps\<close> is non-empty, \<open>init_context\<close> returns without an exception and
  leaves the global state, hence the stored \<open>TOKEN_URL\<close> and \<open>SCOPE\<close>, as it was, for
  every configuration mapping, also one that lacks both keys.
\<close>

theorem init_context_idempotent:
  "oauth_apps g \<noteq> [] \<Longrightarrow> init_context context g = Inr g"
  by (cases "oauth_apps g") (simp_all add: init_context_def)

theorem init_context_idempotent_witness:
  "oauth_apps \<lparr>auth_cache = Map.empty,
               oauth_apps = [(''iam'', \<lparr>TOKEN_URL = lit ''https://idcs.example/oauth2/v1/token'',
                                       SCOPE = lit ''urn:opc:resource''\<rparr>)]\<rparr> \<noteq> []
   \<and> init_context Map.empty
        \<lparr>auth_cache = Map.empty,
         oauth_apps = [(''iam'', \<lparr>TOKEN_URL = lit ''https://idcs.example/oauth2/v1/token'',
                                 SCOPE = lit ''urn:opc:resource''\<rparr>)]\<rparr>
     = Inr \<lparr>auth_cache = Map.empty,
            oauth_apps = [(''iam'', \<lparr>TOKEN_URL = lit ''https://idcs.example/oauth2/v1/token'',
                                    SCOPE = lit ''urn:opc:resource''\<rparr>)]\<rparr>"
  using init_context_idempotent
    [of "\<lparr>auth_cache = Map.empty,
         oauth_apps = [(''iam'', \<lparr>TOKEN_URL = lit ''https://idcs.example/oauth2/v1/token'',
                                 SCOPE = lit ''urn:opc:resource''\<rparr>)]\<rparr>" Map.empty]
  by simp

section \<open>The handler boundary\<close>

text \<open>
  C8. Whatever the world, the configuration, the request and the global state, the
  handler returns a response, and an exception raised by any step of the flow ends the
  invocation with the JSON object whose single field \<open>error\<close> holds the exception's
  text, with status 400 for a \<open>ValueError\<close> and 500 for any other exception. The steps
  are configuration loading (the state stays as it was), reading and parsing the
  payload, credential extraction, cache-key derivation, the cache lookup, the read of
  \<open>oauth_apps['iam']\<close> and the token exchange (the state is the one after configuration
  loading). A failure of \<open>jwt.decode\<close> does not leave \<open>decode_jwt_expiry\<close>, which returns
  \<open>None\<close>. When no step raises, the response is the one the \<open>try\<close> block built, with
  status 200. The status is always 200, 400 or 500.
\<close>

theorem handler_total:
  "(init_context config g = Inl ex \<longrightarrow>
      handler w config req g =
        (error_response (str_exn ex) (if is_ValueError ex then 400 else 500), g))
   \<and> (init_context config g = Inr g1 \<longrightarrow> json_loads req = Inl ex \<longrightarrow>
      handler w config req g =
        (error_response (str_exn ex) (if is_ValueError ex then 400 else 500), g1))
   \<and> (init_context config g = Inr g1 \<longrightarrow> json_loads req = Inr body \<longrightarrow>
      extract_auth_header body = Inl ex \<longrightarrow>
      handler w config req g =
        (error_response (str_exn ex) (if is_ValueError ex then 400 else 500), g1))
   \<and> (init_context config g = Inr g1 \<longrightarrow> json_loads req = Inr body \<longrightarrow>
      extract_auth_header body = Inr auth_header \<longrightarrow> get_cache_key auth_header = Inl ex \<longrightarrow>
      handler w config req g =
        (error_response (str_exn ex) (if is_ValueError ex then 400 else 500), g1))
   \<and> (init_context config g = Inr g1 \<longrightarrow> json_loads req = Inr body \<longrightarrow>
      extract_auth_header body = Inr auth_header \<longrightarrow> get_cache_key auth_header = Inr cache_key \<longrightarrow>
      get_cached_token (auth_cache g1) cache_key (clock_lookup w) = Inl ex \<longrightarrow>
      handler w config req g =
        (error_response (str_exn ex) (if is_ValueError ex then 400 else 500), g1))
   \<and> (init_context config g = Inr g1 \<longrightarrow> json_loads req = Inr body \<longrightarrow>
      extract_auth_header body = Inr auth_header \<longrightarrow> get_cache_key auth_header = Inr cache_key \<longrightarrow>
      get_cached_token (auth_cache g1) cache_key (clock_lookup w) = Inr cached \<longrightarrow>
      map_of (oauth_apps g1) ''iam'' = None \<longrightarrow>
      handler w config req g = (error_response (str_exn (KeyError ''iam'')) 500, g1))
   \<and> (init_context config g = Inr g1 \<longrightarrow> json_loads req = Inr body \<longrightarrow>
      extract_auth_header body = Inr auth_header \<longrightarrow> get_cache_key auth_header = Inr cache_key \<longrightarrow>
      get_cached_token (auth_cache g1) cache_key (clock_lookup w) = Inr cached \<longrightarrow>
      \<not> truthy cached \<longrightarrow> map_of (oauth_apps g1) ''iam'' = Some app \<longrightarrow>
      fetch_new_token (post w) (TOKEN_URL app) (SCOPE app) auth_header = Inl ex \<longrightarrow>
      handler w config req g =
        (error_response (str_exn ex) (if is_ValueError ex then 400 else 500), g1))
   \<and> (jwt_decode w tok = Inl ex \<longrightarrow> decode_jwt_expiry (jwt_decode w) tok = JNull)
   \<and> (case handler_try w config req g of
        (Inl e, g') \<Rightarrow>
          handler w config req g =
            (error_response (str_exn e) (if is_ValueError e then 400 else 500), g')
      | (Inr r, g') \<Rightarrow> handler w config req g = (r, g') \<and> status_code r = 200)
   \<and> status_code (fst (handler w config req g)) \<in> {200, 400, 500}"
proof -
  have at_init: "init_context config g = Inl ex \<longrightarrow>
      handler w config req g =
        (error_response (str_exn ex) (if is_ValueError ex then 400 else 500), g)"
    by (simp add: handler_def handler_try_def build_response_def del: lit_Cons lit_Nil)
  have at_loads: "init_context config g = Inr g1 \<longrightarrow> json_loads req = Inl ex \<longrightarrow>
      handler w config req g =
        (error_response (str_exn ex) (if is_ValueError ex then 400 else 500), g1)"
    by (simp add: handler_def handler_try_def build_response_def del: lit_Cons lit_Nil)
  have at_extract: "init_context config g = Inr g1 \<longrightarrow> json_loads req = Inr body \<longrightarrow>
      extract_auth_header body = Inl ex \<longrightarrow>
      handler w config req g =
        (error_response (str_exn ex) (if is_ValueError ex then 400 else 500), g1)"
    by (simp add: handler_def handler_try_def build_response_def del: lit_Cons lit_Nil)
  have at_key: "init_context config g = Inr g1 \<longrightarrow> json_loads req = Inr body \<longrightarrow>
      extract_auth_header body = Inr auth_header \<longrightarrow> get_cache_key auth_header = Inl ex \<longrightarrow>
      handler w config req g =
        (error_response (str_exn ex) (if is_ValueError ex then 400 else 500), g1)"
    by (simp add: handler_def handler_try_def build_response_def del: lit_Cons lit_Nil)
  have at_lookup: "init_context config g = Inr g1 \<longrightarrow> json_loads req = Inr body \<longrightarrow>
      extract_auth_header body = Inr auth_header \<longrightarrow> get_cache_key auth_header = Inr cache_key \<longrightarrow>
      get_cached_token (auth_cache g1) cache_key (clock_lookup w) = Inl ex \<longrightarrow>
      handler w config req g =
        (error_response (str_exn ex) (if is_ValueError ex then 400 else 500), g1)"
    by (simp add: handler_def handler_try_def build_response_def del: lit_Cons lit_Nil)
  have at_apps: "init_context config g = Inr g1 \<longrightarrow> json_loads req = Inr body \<longrightarrow>
      extract_auth_header body = Inr auth_header \<longrightarrow> get_cache_key auth_header = Inr cache_key \<longrightarrow>
      get_cached_token (auth_cache g1) cache_key (clock_lookup w) = Inr cached \<longrightarrow>
      map_of (oauth_apps g1) ''iam'' = None \<longrightarrow>
      handler w config req g = (error_response (str_exn (KeyError ''iam'')) 500, g1)"
    by (simp add: handler_def handler_try_def build_response_def del: lit_Cons lit_Nil)
  have at_exchange: "init_context config g = Inr g1 \<longrightarrow> json_loads req = Inr body \<longrightarrow>
      extract_auth_header body = Inr auth_header \<longrightarrow> get_cache_key auth_header = Inr cache_key \<longrightarrow>
      get_cached_token (auth_cache g1) cache_key (clock_lookup w) = Inr cached \<longrightarrow>
      \<not> truthy cached \<longrightarrow> map_of (oauth_apps g1) ''iam'' = Some app \<longrightarrow>
      fetch_new_token (post w) (TOKEN_URL app) (SCOPE app) auth_header = Inl ex \<longrightarrow>
      handler w config req g =
        (error_response (str_exn ex) (if is_ValueError ex then 400 else 500), g1)"
    by (simp add: handler_def handler_try_def build_response_def del: lit_Cons lit_Nil)
  have at_decode: "jwt_decode w tok = Inl ex \<longrightarrow> decode_jwt_expiry (jwt_decode w) tok = JNull"
    by (simp add: decode_jwt_expiry_def)
  have at_boundary: "(case handler_try w config req g of
        (Inl e, g') \<Rightarrow>
          handler w config req g =
            (error_response (str_exn e) (if is_ValueError e then 400 else 500), g')
      | (Inr r, g') \<Rightarrow> handler w config req g = (r, g') \<and> status_code r = 200)"
    by (auto simp: handler_def build_response_def dest: handler_try_status
             split: sum.splits prod.splits)
  have at_status: "status_code (fst (handler w config req g)) \<in> {200, 400, 500}"
    by (auto simp: handler_def build_response_def dest: handler_try_status
             split: sum.splits prod.splits)
  from at_init at_loads at_extract at_key at_lookup at_apps at_exchange at_decode at_boundary at_status
  show ?thesis by (intro conjI)
qed

theorem handler_total_witness:
  "handler (example_world 1000 endpoint_down) [''SCOPE'' \<mapsto> lit ''urn:opc:resource'']
       (Payload example_body) fresh_state
     = (error_response (str_exn (KeyError ''TOKEN_URL'')) 500, fresh_state)
   \<and> handler (example_world 1000 endpoint_down) example_config
       (Unparsable (lit ''Expecting value: line 1 column 1 (char 0)'')) fresh_state
     = (error_response (lit ''Expecting value: line 1 column 1 (char 0)'') 400,
        loaded_state Map.empty)
   \<and> handler (example_world 1000 endpoint_down) example_config
       (TooDeep (lit ''maximum recursion depth exceeded while decoding a JSON array'')) fresh_state
     = (error_response (lit ''maximum recursion depth exceeded while decoding a JSON array'') 500,
        loaded_state Map.empty)
   \<and> handler (example_world 1000 endpoint_down) example_config NoData fresh_state
     = (error_response (str_exn (AttributeError ''NoneType'' ''getvalue'')) 500,
        loaded_state Map.empty)
   \<and> handler (example_world 1000 endpoint_down) example_config (Payload (JObj [])) fresh_state
     = (error_response (lit ''Missing or invalid Authorization header'') 400,
        loaded_state Map.empty)
   \<and> handler (example_world 1000 endpoint_down) example_config
       (Payload (JObj [(lit ''token'', JStr (lit ''Basic '' @ [0xD800]))])) fresh_state
     = (error_response (str_exn (UnicodeEncodeError 0xD800 6 7)) 400, loaded_state Map.empty)
   \<and> handler (example_world 1000 endpoint_down) example_config (Payload example_body)
       (loaded_state [example_key \<mapsto> \<lparr>token = JStr (lit ''tok1''), exp_ts = JStr (lit ''tomorrow'')\<rparr>])
     = (error_response (str_exn (TypeError ''str'')) 500,
        loaded_state [example_key \<mapsto> \<lparr>token = JStr (lit ''tok1''), exp_ts = JStr (lit ''tomorrow'')\<rparr>])
   \<and> handler (example_world 1000 endpoint_down) example_config (Payload example_body)
       \<lparr>auth_cache = Map.empty, oauth_apps = [(''idcs'', example_app)]\<rparr>
     = (error_response (str_exn (KeyError ''iam'')) 500,
        \<lparr>auth_cache = Map.empty, oauth_apps = [(''idcs'', example_app)]\<rparr>)
   \<and> handler (example_world 1000 endpoint_down) example_config (Payload example_body) fresh_state
     = (error_response (lit ''Connection refused'') 500, loaded_state Map.empty)
   \<and> decode_jwt_expiry (jwt_decode (example_world 1000 endpoint_down)) (JStr (lit ''tok1'')) = JNull"
proof -
  have no_url: "init_context [''SCOPE'' \<mapsto> lit ''urn:opc:resource''] fresh_state
                  = Inl (KeyError ''TOKEN_URL'')"
    by (simp add: init_context_def)
  have load: "init_context example_config fresh_state = Inr (loaded_state Map.empty)"
    by (simp add: init_context_def del: lit_Cons lit_Nil)
  have bad_json: "json_loads (Unparsable (lit ''Expecting value: line 1 column 1 (char 0)''))
                  = Inl (LibraryValueError (lit ''Expecting value: line 1 column 1 (char 0)''))"
    by (simp add: json_loads_def)
  have deep_json:
    "json_loads (TooDeep (lit ''maximum recursion depth exceeded while decoding a JSON array''))
       = Inl (LibraryException (lit ''maximum recursion depth exceeded while decoding a JSON array''))"
    by (simp add: json_loads_def)
  have no_data: "json_loads NoData = Inl (AttributeError ''NoneType'' ''getvalue'')"
    by (simp add: json_loads_def)
  have parsed: "json_loads (Payload b) = Inr b" for b
    by (simp add: json_loads_def)
  have no_header: "extract_auth_header (JObj [])
                   = Inl (ValueError (lit ''Missing or invalid Authorization header''))"
    by (simp add: extract_auth_header_def py_get_def del: lit_Cons lit_Nil)
  have surrogate: "extract_auth_header (JObj [(lit ''token'', JStr (lit ''Basic '' @ [0xD800]))])
                   = Inr (lit ''Basic '' @ [0xD800])"
    by (simp add: extract_auth_header_def py_get_def)
  have no_key: "get_cache_key (lit ''Basic '' @ [0xD800]) = Inl (UnicodeEncodeError 0xD800 6 7)"
    by (simp add: get_cache_key_def utf8_encode_def is_surrogate_def)
  have header: "extract_auth_header example_body = Inr example_credential"
    by (simp add: extract_auth_header_def py_get_def lit_simps del: lit_Cons lit_Nil)
  have key: "get_cache_key example_credential = Inr example_key"
    by (rule get_cache_key_lit)
  have reload: "init_context example_config
                  (loaded_state [example_key \<mapsto>
                     \<lparr>token = JStr (lit ''tok1''), exp_ts = JStr (lit ''tomorrow'')\<rparr>])
                = Inr (loaded_state [example_key \<mapsto>
                     \<lparr>token = JStr (lit ''tok1''), exp_ts = JStr (lit ''tomorrow'')\<rparr>])"
    by (simp add: init_context_def)
  have bad_expiry:
    "get_cached_token
       (auth_cache (loaded_state [example_key \<mapsto>
                     \<lparr>token = JStr (lit ''tok1''), exp_ts = JStr (lit ''tomorrow'')\<rparr>]))
       example_key (clock_lookup (example_world 1000 endpoint_down))
     = Inl (TypeError ''str'')"
    by (simp add: get_cached_token_def)
  have other_apps: "init_context example_config
                      \<lparr>auth_cache = Map.empty, oauth_apps = [(''idcs'', example_app)]\<rparr>
                    = Inr \<lparr>auth_cache = Map.empty, oauth_apps = [(''idcs'', example_app)]\<rparr>"
    by (simp add: init_context_def)
  have miss0: "get_cached_token
                 (auth_cache \<lparr>auth_cache = Map.empty, oauth_apps = [(''idcs'', example_app)]\<rparr>)
                 example_key (clock_lookup (example_world 1000 endpoint_down))
               = Inr JNull"
    by (simp add: get_cached_token_def)
  have no_iam: "map_of (oauth_apps \<lparr>auth_cache = Map.empty, oauth_apps = [(''idcs'', example_app)]\<rparr>)
                  ''iam'' = None"
    by simp
  have miss: "get_cached_token (auth_cache (loaded_state Map.empty)) example_key
                (clock_lookup (example_world 1000 endpoint_down))
              = Inr JNull"
    by (simp add: get_cached_token_def)
  have falsy: "\<not> truthy JNull" by simp
  have iam: "map_of (oauth_apps (loaded_state Map.empty)) ''iam'' = Some example_app"
    by simp
  have down: "fetch_new_token (post (example_world 1000 endpoint_down)) (TOKEN_URL example_app)
                (SCOPE example_app) example_credential
              = Inl (LibraryException (lit ''Connection refused''))"
    by (simp add: fetch_new_token_def)
  have undecodable: "jwt_decode (example_world 1000 endpoint_down) (JStr (lit ''tok1''))
                     = Inl (LibraryException (lit ''Not enough segments''))"
    by simp
  have r1: "handler (example_world 1000 endpoint_down) [''SCOPE'' \<mapsto> lit ''urn:opc:resource'']
       (Payload example_body) fresh_state
     = (error_response (str_exn (KeyError ''TOKEN_URL'')) 500, fresh_state)"
    using handler_total [THEN conjunct1, rule_format, OF no_url] by simp
  have r2: "handler (example_world 1000 endpoint_down) example_config
       (Unparsable (lit ''Expecting value: line 1 column 1 (char 0)'')) fresh_state
     = (error_response (lit ''Expecting value: line 1 column 1 (char 0)'') 400,
        loaded_state Map.empty)"
    using handler_total [THEN conjunct2, THEN conjunct1, rule_format, OF load bad_json]
    by simp
  have r3: "handler (example_world 1000 endpoint_down) example_config
       (TooDeep (lit ''maximum recursion depth exceeded while decoding a JSON array'')) fresh_state
     = (error_response (lit ''maximum recursion depth exceeded while decoding a JSON array'') 500,
        loaded_state Map.empty)"
    using handler_total [THEN conjunct2, THEN conjunct1, rule_format, OF load deep_json]
    by simp
  have r4: "handler (example_world 1000 endpoint_down) example_config NoData fresh_state
     = (error_response (str_exn (AttributeError ''NoneType'' ''getvalue'')) 500,
        loaded_state Map.empty)"
    using handler_total [THEN conjunct2, THEN conjunct1, rule_format, OF load no_data]
    by simp
  have r5: "handler (example_world 1000 endpoint_down) example_config (Payload (JObj [])) fresh_state
     = (error_response (lit ''Missing or invalid Authorization header'') 400,
        loaded_state Map.empty)"
    using handler_total [THEN conjunct2, THEN conjunct2, THEN conjunct1, rule_format,
            OF load parsed no_header]
    by simp
  have r6: "handler (example_world 1000 endpoint_down) example_config
       (Payload (JObj [(lit ''token'', JStr (lit ''Basic '' @ [0xD800]))])) fresh_state
     = (error_response (str_exn (UnicodeEncodeError 0xD800 6 7)) 400, loaded_state Map.empty)"
    using handler_total [THEN conjunct2, THEN conjunct2, THEN conjunct2, THEN conjunct1,
            rule_format, OF load parsed surrogate no_key]
    by simp
  have r7: "handler (example_world 1000 endpoint_down) example_config (Payload example_body)
       (loaded_state [example_key \<mapsto> \<lparr>token = JStr (lit ''tok1''), exp_ts = JStr (lit ''tomorrow'')\<rparr>])
     = (error_response (str_exn (TypeError ''str'')) 500,
        loaded_state [example_key \<mapsto> \<lparr>token = JStr (lit ''tok1''), exp_ts = JStr (lit ''tomorrow'')\<rparr>])"
    using handler_total [THEN conjunct2, THEN conjunct2, THEN conjunct2, THEN conjunct2,
            THEN conjunct1, rule_format, OF reload parsed header key bad_expiry]
    by simp
  have r8: "handler (example_world 1000 endpoint_down) example_config (Payload example_body)
       \<lparr>auth_cache = Map.empty, oauth_apps = [(''idcs'', example_app)]\<rparr>
     = (error_response (str_exn (KeyError ''iam'')) 500,
        \<lparr>auth_cache = Map.empty, oauth_apps = [(''idcs'', example_app)]\<rparr>)"
    using handler_total [THEN conjunct2, THEN conjunct2, THEN conjunct2, THEN conjunct2,
            THEN conjunct2, THEN conjunct1, rule_format,
            OF other_apps parsed header key miss0 no_iam]
    by simp
  have r9: "handler (example_world 1000 endpoint_down) example_config (Payload example_body) fresh_state
     = (error_response (lit ''Connection refused'') 500, loaded_state Map.empty)"
    using handler_total [THEN conjunct2, THEN conjunct2, THEN conjunct2, THEN conjunct2,
            THEN conjunct2, THEN conjunct2, THEN conjunct1, rule_format,
            OF load parsed header key miss falsy iam down]
    by simp
  have r10: "decode_jwt_expiry (jwt_decode (example_world 1000 endpoint_down)) (JStr (lit ''tok1''))
             = JNull"
    using handler_total [THEN conjunct2, THEN conjunct2, THEN conjunct2, THEN conjunct2,
            THEN conjunct2, THEN conjunct2, THEN conjunct2, THEN conjunct1, rule_format,
            OF undecodable]
    by simp
  from r1 r2 r3 r4 r5 r6 r7 r8 r9 r10 show ?thesis by (intro conjI)
qed

text \<open>
  C7. Take an invocation whose configuration loads and whose payload yields a credential
  and its cache key. When the lookup returns a truthy token (a cache hit), the handler
  answers with status 200, the JSON content type and the body \<open>{"active": true, "scope":
  SCOPE, "context": {"token_response": "Bearer " + token}}\<close> for the cached token and
  the configured scope; the state is the one after configuration loading, and the
  answer is the same whatever the token endpoint would do. When the lookup returns no
  token (a miss) and \<open>fetch_new_token\<close> returns one, the handler answers with the same
  status, headers and body shape for the fetched token, and the token is cached under
  the key with the expiry \<open>decode_jwt_expiry\<close> gives. Conversely, every response the
  \<open>try\<close> block returns arises in one of these two ways. A token that is a \<open>str\<close> is
  formatted as itself.
\<close>

theorem handler_success_shape:
  assumes "init_context config g = Inr g1"
    and "extract_auth_header body = Inr auth_header"
    and "get_cache_key auth_header = Inr cache_key"
    and "get_cached_token (auth_cache g1) cache_key (clock_lookup w) = Inr cached"
    and "map_of (oauth_apps g1) ''iam'' = Some app"
  shows "(truthy cached \<longrightarrow>
            handler w config (Payload body) g =
              (success_response (SCOPE app) (format_value (py_str w) cached), g1)
            \<and> handler (w\<lparr>post := p\<rparr>) config (Payload body) g = handler w config (Payload body) g)
       \<and> (\<not> truthy cached \<longrightarrow>
            fetch_new_token (post w) (TOKEN_URL app) (SCOPE app) auth_header = Inr new_token \<longrightarrow>
            handler w config (Payload body) g =
              (success_response (SCOPE app) (format_value (py_str w) new_token),
               g1\<lparr>auth_cache :=
                    cache_token (auth_cache g1) cache_key new_token
                      (decode_jwt_expiry (jwt_decode w) new_token) (clock_insert w)\<rparr>))
       \<and> (handler_try w' config' req' g0 = (Inr r, g') \<longrightarrow>
            (\<exists>s1 b ah ck c ap tok.
               init_context config' g0 = Inr s1 \<and> req' = Payload b
               \<and> extract_auth_header b = Inr ah
               \<and> get_cache_key ah = Inr ck
               \<and> get_cached_token (auth_cache s1) ck (clock_lookup w') = Inr c
               \<and> map_of (oauth_apps s1) ''iam'' = Some ap
               \<and> (if truthy c then tok = c \<and> g' = s1
                   else fetch_new_token (post w') (TOKEN_URL ap) (SCOPE ap) ah = Inr tok)
               \<and> handler w' config' req' g0 =
                   (success_response (SCOPE ap) (format_value (py_str w') tok), g')))"
proof -
  have hit: "truthy cached \<longrightarrow>
            handler w config (Payload body) g =
              (success_response (SCOPE app) (format_value (py_str w) cached), g1)
            \<and> handler (w\<lparr>post := p\<rparr>) config (Payload body) g = handler w config (Payload body) g"
    using assms
    by (simp add: handler_def handler_try_def json_loads_def build_response_def
          del: lit_Cons lit_Nil)
  have miss: "\<not> truthy cached \<longrightarrow>
            fetch_new_token (post w) (TOKEN_URL app) (SCOPE app) auth_header = Inr new_token \<longrightarrow>
            handler w config (Payload body) g =
              (success_response (SCOPE app) (format_value (py_str w) new_token),
               g1\<lparr>auth_cache :=
                    cache_token (auth_cache g1) cache_key new_token
                      (decode_jwt_expiry (jwt_decode w) new_token) (clock_insert w)\<rparr>)"
    using assms
    by (simp add: handler_def handler_try_def json_loads_def build_response_def Let_def
          del: lit_Cons lit_Nil)
  have only: "handler_try w' config' req' g0 = (Inr r, g') \<longrightarrow>
            (\<exists>s1 b ah ck c ap tok.
               init_context config' g0 = Inr s1 \<and> req' = Payload b
               \<and> extract_auth_header b = Inr ah
               \<and> get_cache_key ah = Inr ck
               \<and> get_cached_token (auth_cache s1) ck (clock_lookup w') = Inr c
               \<and> map_of (oauth_apps s1) ''iam'' = Some ap
               \<and> (if truthy c then tok = c \<and> g' = s1
                   else fetch_new_token (post w') (TOKEN_URL ap) (SCOPE ap) ah = Inr tok)
               \<and> handler w' config' req' g0 =
                   (success_response (SCOPE ap) (format_value (py_str w') tok), g'))"
    using handler_try_success_cases [of w' config' req' g0 r g'] by blast
  from hit miss only show ?thesis by (intro conjI)
qed

theorem handler_success_shape_witness:
  "get_cached_token (auth_cache (loaded_state Map.empty)) example_key
       (clock_lookup (example_world 1000 (endpoint_issuing (lit ''tok1'')))) = Inr JNull
   \<and> handler (example_world 1000 (endpoint_issuing (lit ''tok1''))) example_config
       (Payload example_body) fresh_state
     = (success_response (lit ''urn:opc:resource'') (lit ''tok1''),
        loaded_state [example_key \<mapsto> \<lparr>token = JStr (lit ''tok1''), exp_ts = JFloat 1301\<rparr>])
   \<and> get_cached_token
       (auth_cache (loaded_state [example_key \<mapsto> \<lparr>token = JStr (lit ''tok1''), exp_ts = JFloat 1301\<rparr>]))
       example_key (clock_lookup (example_world 1200 endpoint_down)) = Inr (JStr (lit ''tok1''))
   \<and> handler (example_world 1200 endpoint_down) example_config (Payload example_body)
       (loaded_state [example_key \<mapsto> \<lparr>token = JStr (lit ''tok1''), exp_ts = JFloat 1301\<rparr>])
     = (success_response (lit ''urn:opc:resource'') (lit ''tok1''),
        loaded_state [example_key \<mapsto> \<lparr>token = JStr (lit ''tok1''), exp_ts = JFloat 1301\<rparr>])
   \<and> handler (example_world 1200 (endpoint_issuing (lit ''tok2''))) example_config
       (Payload example_body)
       (loaded_state [example_key \<mapsto> \<lparr>token = JStr (lit ''tok1''), exp_ts = JFloat 1301\<rparr>])
     = handler (example_world 1200 endpoint_down) example_config (Payload example_body)
       (loaded_state [example_key \<mapsto> \<lparr>token = JStr (lit ''tok1''), exp_ts = JFloat 1301\<rparr>])
   \<and> handler_try (example_world 1200 endpoint_down) example_config (Payload example_body)
       (loaded_state [example_key \<mapsto> \<lparr>token = JStr (lit ''tok1''), exp_ts = JFloat 1301\<rparr>])
     = (Inr (success_response (lit ''urn:opc:resource'') (lit ''tok1'')),
        loaded_state [example_key \<mapsto> \<lparr>token = JStr (lit ''tok1''), exp_ts = JFloat 1301\<rparr>])
   \<and> (\<exists>(ap::app_config) tok.
        handler (example_world 1200 endpoint_down) example_config (Payload example_body)
          (loaded_state [example_key \<mapsto> \<lparr>token = JStr (lit ''tok1''), exp_ts = JFloat 1301\<rparr>])
        = (success_response (SCOPE ap) (format_value (py_str (example_world 1200 endpoint_down)) tok),
           loaded_state [example_key \<mapsto> \<lparr>token = JStr (lit ''tok1''), exp_ts = JFloat 1301\<rparr>]))"
proof -
  have load: "init_context example_config fresh_state = Inr (loaded_state Map.empty)"
    by (simp add: init_context_def del: lit_Cons lit_Nil)
  have header: "extract_auth_header example_body = Inr example_credential"
    by (simp add: extract_auth_header_def py_get_def lit_simps del: lit_Cons lit_Nil)
  have key: "get_cache_key example_credential = Inr example_key"
    by (rule get_cache_key_lit)
  have miss: "get_cached_token (auth_cache (loaded_state Map.empty)) example_key
                (clock_lookup (example_world 1000 (endpoint_issuing (lit ''tok1'')))) = Inr JNull"
    by (simp add: get_cached_token_def)
  have iam: "map_of (oauth_apps (loaded_state Map.empty)) ''iam'' = Some example_app"
    by simp
  have falsy: "\<not> truthy JNull" by simp
  have issued: "fetch_new_token (post (example_world 1000 (endpoint_issuing (lit ''tok1''))))
                  (TOKEN_URL example_app) (SCOPE example_app) example_credential
                = Inr (JStr (lit ''tok1''))"
    by (simp add: fetch_new_token_def py_get_def lit_simps del: lit_Cons lit_Nil)
  have first: "handler (example_world 1000 (endpoint_issuing (lit ''tok1''))) example_config
       (Payload example_body) fresh_state
     = (success_response (lit ''urn:opc:resource'') (lit ''tok1''),
        loaded_state [example_key \<mapsto> \<lparr>token = JStr (lit ''tok1''), exp_ts = JFloat 1301\<rparr>])"
    using handler_success_shape [OF load header key miss iam, THEN conjunct2, THEN conjunct1,
            rule_format, OF falsy issued]
    by (simp add: format_value_def decode_jwt_expiry_def cache_token_def del: lit_Cons lit_Nil)
  have reload: "init_context example_config
                  (loaded_state [example_key \<mapsto> \<lparr>token = JStr (lit ''tok1''), exp_ts = JFloat 1301\<rparr>])
                = Inr (loaded_state [example_key \<mapsto>
                         \<lparr>token = JStr (lit ''tok1''), exp_ts = JFloat 1301\<rparr>])"
    by (simp add: init_context_def)
  have hit: "get_cached_token
       (auth_cache (loaded_state [example_key \<mapsto> \<lparr>token = JStr (lit ''tok1''), exp_ts = JFloat 1301\<rparr>]))
       example_key (clock_lookup (example_world 1200 endpoint_down)) = Inr (JStr (lit ''tok1''))"
    by (simp add: get_cached_token_def)
  have iam2: "map_of (oauth_apps (loaded_state [example_key \<mapsto>
                         \<lparr>token = JStr (lit ''tok1''), exp_ts = JFloat 1301\<rparr>])) ''iam''
              = Some example_app"
    by simp
  have nonempty: "truthy (JStr (lit ''tok1''))" by simp
  note second_call = handler_success_shape [OF reload header key hit iam2]
  have second: "handler (example_world 1200 endpoint_down) example_config (Payload example_body)
       (loaded_state [example_key \<mapsto> \<lparr>token = JStr (lit ''tok1''), exp_ts = JFloat 1301\<rparr>])
     = (success_response (lit ''urn:opc:resource'') (lit ''tok1''),
        loaded_state [example_key \<mapsto> \<lparr>token = JStr (lit ''tok1''), exp_ts = JFloat 1301\<rparr>])"
    using second_call [THEN conjunct1, rule_format, OF nonempty, THEN conjunct1]
    by (simp add: format_value_def del: lit_Cons lit_Nil)
  have unused: "handler (example_world 1200 (endpoint_issuing (lit ''tok2''))) example_config
       (Payload example_body)
       (loaded_state [example_key \<mapsto> \<lparr>token = JStr (lit ''tok1''), exp_ts = JFloat 1301\<rparr>])
     = handler (example_world 1200 endpoint_down) example_config (Payload example_body)
       (loaded_state [example_key \<mapsto> \<lparr>token = JStr (lit ''tok1''), exp_ts = JFloat 1301\<rparr>])"
    using second_call [THEN conjunct1, rule_format, OF nonempty, THEN conjunct2,
            of "endpoint_issuing (lit ''tok2'')"]
    by simp
  have returned: "handler_try (example_world 1200 endpoint_down) example_config (Payload example_body)
       (loaded_state [example_key \<mapsto> \<lparr>token = JStr (lit ''tok1''), exp_ts = JFloat 1301\<rparr>])
     = (Inr (success_response (lit ''urn:opc:resource'') (lit ''tok1'')),
        loaded_state [example_key \<mapsto> \<lparr>token = JStr (lit ''tok1''), exp_ts = JFloat 1301\<rparr>])"
    by (simp add: handler_try_def reload json_loads_def header key get_cached_token_def
          build_response_def format_value_def lit_simps del: lit_Cons lit_Nil)
  have shaped: "\<exists>(ap::app_config) tok.
        handler (example_world 1200 endpoint_down) example_config (Payload example_body)
          (loaded_state [example_key \<mapsto> \<lparr>token = JStr (lit ''tok1''), exp_ts = JFloat 1301\<rparr>])
        = (success_response (SCOPE ap) (format_value (py_str (example_world 1200 endpoint_down)) tok),
           loaded_state [example_key \<mapsto> \<lparr>token = JStr (lit ''tok1''), exp_ts = JFloat 1301\<rparr>])"
    using second_call [THEN conjunct2, THEN conjunct2, rule_format, OF returned]
    by (elim exE conjE) (intro exI, assumption)
  from miss first hit second unused returned shaped show ?thesis by (intro conjI)
qed

section \<open>Credential extraction\<close>

text \<open>
  C10. For a payload that is a mapping whose \<open>token\<close> field is absent or falsy and whose
  \<open>data\<close> field is present and not a mapping, \<open>extract_auth_header\<close> raises the
  \<open>AttributeError\<close> of calling \<open>get\<close> on that value, whatever the top-level
  \<open>Authorization\<close> field holds, and the invocation answers with status 500.
\<close>

theorem extract_non_mapping_data:
  assumes "\<not> truthy (case map_of kvs (lit ''token'') of None \<Rightarrow> JNull | Some t \<Rightarrow> t)"
    and "map_of kvs (lit ''data'') = Some d"
    and "type_name d \<noteq> ''dict''"
  shows "extract_auth_header (JObj kvs) = Inl (AttributeError (type_name d) ''get'')
         \<and> status_code (fst (handler w config (Payload (JObj kvs)) g)) = 500"
proof -
  have e: "extract_auth_header (JObj kvs) = Inl (AttributeError (type_name d) ''get'')"
    using assms by (cases d) (simp_all add: extract_auth_header_def py_get_def)
  have "\<exists>ex g'. handler_try w config (Payload (JObj kvs)) g = (Inl ex, g') \<and> \<not> is_ValueError ex"
    using e by (auto simp: handler_try_def init_context_def json_loads_def split: option.splits)
  then show ?thesis using e by (auto simp: handler_def build_response_def)
qed

theorem extract_non_mapping_data_witness:
  "\<not> truthy (case map_of [(lit ''data'', JStr (lit ''x'')),
                            (lit ''Authorization'', JStr (lit ''Basic QWxhZGRpbjpvcGVuc2VzYW1l''))]
                     (lit ''token'') of None \<Rightarrow> JNull | Some t \<Rightarrow> t)
   \<and> map_of [(lit ''data'', JStr (lit ''x'')),
              (lit ''Authorization'', JStr (lit ''Basic QWxhZGRpbjpvcGVuc2VzYW1l''))]
        (lit ''data'') = Some (JStr (lit ''x''))
   \<and> type_name (JStr (lit ''x'')) \<noteq> ''dict''
   \<and> extract_auth_header
        (JObj [(lit ''data'', JStr (lit ''x'')),
               (lit ''Authorization'', JStr (lit ''Basic QWxhZGRpbjpvcGVuc2VzYW1l''))])
       = Inl (AttributeError ''str'' ''get'')
   \<and> status_code (fst (handler
        \<lparr>clock_lookup = 1000, clock_insert = 1000,
         post = (\<lambda>u a s. Inl (LibraryException (lit ''unreachable''))),
         jwt_decode = (\<lambda>t. Inl (LibraryException (lit ''unreachable''))),
         py_str = (\<lambda>v. [])\<rparr>
        [''TOKEN_URL'' \<mapsto> lit ''https://idcs.example/oauth2/v1/token'',
         ''SCOPE'' \<mapsto> lit ''urn:opc:resource'']
        (Payload (JObj [(lit ''data'', JStr (lit ''x'')),
                        (lit ''Authorization'', JStr (lit ''Basic QWxhZGRpbjpvcGVuc2VzYW1l''))]))
        \<lparr>auth_cache = Map.empty, oauth_apps = []\<rparr>)) = 500"
proof -
  have h1: "\<not> truthy (case map_of [(lit ''data'', JStr (lit ''x'')),
                            (lit ''Authorization'', JStr (lit ''Basic QWxhZGRpbjpvcGVuc2VzYW1l''))]
                     (lit ''token'') of None \<Rightarrow> JNull | Some t \<Rightarrow> t)"
    by simp
  have h2: "map_of [(lit ''data'', JStr (lit ''x'')),
              (lit ''Authorization'', JStr (lit ''Basic QWxhZGRpbjpvcGVuc2VzYW1l''))]
        (lit ''data'') = Some (JStr (lit ''x''))"
    by simp
  have h3: "type_name (JStr (lit ''x'')) \<noteq> ''dict''"
    by simp
  from extract_non_mapping_data [OF h1 h2 h3] h1 h2 h3 show ?thesis
    by simp
qed

text \<open>
  C4, amended. For a payload that is a mapping whose \<open>data\<close> field is absent or a
  mapping, and whose \<open>token\<close>, \<open>data.Authorization\<close> and \<open>Authorization\<close> fields are
  each absent, \<open>null\<close> or a string, \<open>extract_auth_header\<close> takes the first non-empty of
  the three strings in that order. It returns that string when it begins with
  \<open>"Basic "\<close>, and raises \<open>ValueError("Missing or invalid Authorization header")\<close>
  when no string is non-empty or the first non-empty one lacks the prefix. That error
  leaves the handler as status 400 with the message in the \<open>error\<close> field.
\<close>

theorem extract_auth_header_priority:
  assumes "str_field kvs (lit ''token'') = Some t"
    and "map_of kvs (lit ''data'') = None \<and> dkvs = [] \<or> map_of kvs (lit ''data'') = Some (JObj dkvs)"
    and "str_field dkvs (lit ''Authorization'') = Some da"
    and "str_field kvs (lit ''Authorization'') = Some a"
    and "init_context config g = Inr g1"
  shows "extract_auth_header (JObj kvs) =
           (case find (\<lambda>s. s \<noteq> []) [t, da, a] of
              None \<Rightarrow> Inl (ValueError (lit ''Missing or invalid Authorization header''))
            | Some s \<Rightarrow>
                if prefix (lit ''Basic '') s then Inr s
                else Inl (ValueError (lit ''Missing or invalid Authorization header'')))
         \<and> (extract_auth_header (JObj kvs)
               = Inl (ValueError (lit ''Missing or invalid Authorization header'')) \<longrightarrow>
             handler w config (Payload (JObj kvs)) g =
               (\<lparr>response_data =
                   JObj [(lit ''error'', JStr (lit ''Missing or invalid Authorization header''))],
                 status_code = 400,
                 headers = [(''Content-Type'', ''application/json'')]\<rparr>, g1))"
proof -
  from str_field_get [OF assms(1)] obtain vt where
    vt: "py_get (JObj kvs) (lit ''token'') JNull = Inr vt" "truthy vt = (t \<noteq> [])"
        "truthy vt \<longrightarrow> vt = JStr t" by blast
  from str_field_get [OF assms(3)] obtain vd where
    vd: "py_get (JObj dkvs) (lit ''Authorization'') JNull = Inr vd" "truthy vd = (da \<noteq> [])"
        "truthy vd \<longrightarrow> vd = JStr da" by blast
  from str_field_get [OF assms(4)] obtain va where
    va: "py_get (JObj kvs) (lit ''Authorization'') JNull = Inr va" "truthy va = (a \<noteq> [])"
        "truthy va \<longrightarrow> va = JStr a" by blast
  have d: "py_get (JObj kvs) (lit ''data'') (JObj []) = Inr (JObj dkvs)"
    using assms(2) by (auto simp: py_get_def simp del: lit_Cons lit_Nil)
  have 1: "extract_auth_header (JObj kvs) =
           (case find (\<lambda>s. s \<noteq> []) [t, da, a] of
              None \<Rightarrow> Inl (ValueError (lit ''Missing or invalid Authorization header''))
            | Some s \<Rightarrow>
                if prefix (lit ''Basic '') s then Inr s
                else Inl (ValueError (lit ''Missing or invalid Authorization header'')))"
    using vt vd va d
    by (cases "t = []"; cases "da = []"; cases "a = []")
       (simp_all add: extract_auth_header_def del: lit_Cons lit_Nil)
  have 2: "extract_auth_header (JObj kvs)
               = Inl (ValueError (lit ''Missing or invalid Authorization header'')) \<longrightarrow>
             handler w config (Payload (JObj kvs)) g =
               (\<lparr>response_data =
                   JObj [(lit ''error'', JStr (lit ''Missing or invalid Authorization header''))],
                 status_code = 400,
                 headers = [(''Content-Type'', ''application/json'')]\<rparr>, g1)"
    using assms(5)
    by (simp add: handler_def handler_try_def json_loads_def build_response_def
          del: lit_Cons lit_Nil)
  from 1 2 show ?thesis by (rule conjI)
qed

theorem extract_auth_header_priority_witness:
  "str_field [(lit ''Authorization'', JStr (lit ''Bearer xyz''))] (lit ''token'') = Some []
   \<and> (map_of [(lit ''Authorization'', JStr (lit ''Bearer xyz''))] (lit ''data'') = None \<and> ([] :: (pystr \<times> json) list) = []
        \<or> map_of [(lit ''Authorization'', JStr (lit ''Bearer xyz''))] (lit ''data'') = Some (JObj []))
   \<and> str_field [] (lit ''Authorization'') = Some []
   \<and> str_field [(lit ''Authorization'', JStr (lit ''Bearer xyz''))] (lit ''Authorization'')
        = Some (lit ''Bearer xyz'')
   \<and> init_context [''TOKEN_URL'' \<mapsto> lit ''https://idcs.example/oauth2/v1/token'',
                    ''SCOPE'' \<mapsto> lit ''urn:opc:resource'']
        \<lparr>auth_cache = Map.empty, oauth_apps = []\<rparr>
       = Inr \<lparr>auth_cache = Map.empty,
              oauth_apps = [(''iam'', \<lparr>TOKEN_URL = lit ''https://idcs.example/oauth2/v1/token'',
                                      SCOPE = lit ''urn:opc:resource''\<rparr>)]\<rparr>
   \<and> extract_auth_header (JObj [(lit ''Authorization'', JStr (lit ''Bearer xyz''))])
       = Inl (ValueError (lit ''Missing or invalid Authorization header''))
   \<and> handler
        \<lparr>clock_lookup = 1000, clock_insert = 1000,
         post = (\<lambda>u a s. Inl (LibraryException (lit ''unreachable''))),
         jwt_decode = (\<lambda>t. Inl (LibraryException (lit ''unreachable''))),
         py_str = (\<lambda>v. [])\<rparr>
        [''TOKEN_URL'' \<mapsto> lit ''https://idcs.example/oauth2/v1/token'',
         ''SCOPE'' \<mapsto> lit ''urn:opc:resource'']
        (Payload (JObj [(lit ''Authorization'', JStr (lit ''Bearer xyz''))]))
        \<lparr>auth_cache = Map.empty, oauth_apps = []\<rparr>
       = (\<lparr>response_data =
             JObj [(lit ''error'', JStr (lit ''Missing or invalid Authorization header''))],
           status_code = 400,
           headers = [(''Content-Type'', ''application/json'')]\<rparr>,
          \<lparr>auth_cache = Map.empty,
           oauth_apps = [(''iam'', \<lparr>TOKEN_URL = lit ''https://idcs.example/oauth2/v1/token'',
                                   SCOPE = lit ''urn:opc:resource''\<rparr>)]\<rparr>)"
proof -
  have h1: "str_field [(lit ''Authorization'', JStr (lit ''Bearer xyz''))] (lit ''token'') = Some []"
    by (simp add: str_field_def lit_simps del: lit_Cons lit_Nil)
  have h2: "map_of [(lit ''Authorization'', JStr (lit ''Bearer xyz''))] (lit ''data'') = None
              \<and> ([] :: (pystr \<times> json) list) = []
            \<or> map_of [(lit ''Authorization'', JStr (lit ''Bearer xyz''))] (lit ''data'')
                = Some (JObj [])"
    by (simp add: lit_simps del: lit_Cons lit_Nil)
  have h3: "str_field [] (lit ''Authorization'') = Some []"
    by (simp add: str_field_def)
  have h4: "str_field [(lit ''Authorization'', JStr (lit ''Bearer xyz''))] (lit ''Authorization'')
              = Some (lit ''Bearer xyz'')"
    by (simp add: str_field_def)
  have h5: "init_context [''TOKEN_URL'' \<mapsto> lit ''https://idcs.example/oauth2/v1/token'',
                    ''SCOPE'' \<mapsto> lit ''urn:opc:resource'']
        \<lparr>auth_cache = Map.empty, oauth_apps = []\<rparr>
       = Inr \<lparr>auth_cache = Map.empty,
              oauth_apps = [(''iam'', \<lparr>TOKEN_URL = lit ''https://idcs.example/oauth2/v1/token'',
                                      SCOPE = lit ''urn:opc:resource''\<rparr>)]\<rparr>"
    by (simp add: init_context_def del: lit_Cons lit_Nil)
  from extract_auth_header_priority [OF h1 h2 h3 h4 h5] h1 h2 h3 h4 h5
  show ?thesis
    by (simp add: lit_simps del: lit_Cons lit_Nil)
qed

text \<open>
  C4 as stated fails on the payload \<open>{"data": [], "Authorization": "Basic QWxh..."}\<close>:
  the only non-empty match is the top-level \<open>Authorization\<close>, which begins with
  \<open>"Basic "\<close>, yet nothing is returned and the error raised is the \<open>AttributeError\<close> of
  \<open>[].get\<close>, not the validation error.
\<close>

theorem extract_auth_header_counterexample:
  "extract_auth_header
     (JObj [(lit ''data'', JArr []),
            (lit ''Authorization'', JStr (lit ''Basic QWxhZGRpbjpvcGVuc2VzYW1l''))])
   = Inl (AttributeError ''list'' ''get'')"
  by (simp add: extract_auth_header_def py_get_def)

section \<open>Error responses\<close>

text \<open>
  C2, amended. When \<open>requests.post\<close> returns a response whose body parses as a JSON
  object, \<open>fetch_new_token\<close> fails in exactly two cases: a status other than 200 raises
  \<open>RuntimeError("Token request failed: " + text)\<close>, and status 200 with an
  \<open>access_token\<close> that is absent or falsy raises
  \<open>ValueError("No access token returned from OCI IAM")\<close>; otherwise it returns the
  token. In an invocation that reaches the exchange, the first failure (whatever the
  body) answers with status 500 and the second with status 400, each with the message
  in the \<open>error\<close> field, and the state is the one after configuration loading.
\<close>

theorem exchange_failure_status:
  assumes "init_context config g = Inr g1"
      and "extract_auth_header body = Inr auth_header"
      and "get_cache_key auth_header = Inr cache_key"
      and "get_cached_token (auth_cache g1) cache_key (clock_lookup w) = Inr cached"
      and "\<not> truthy cached"
      and "map_of (oauth_apps g1) ''iam'' = Some app"
      and "p1 (TOKEN_URL app) auth_header (SCOPE app) = Inr (HttpResponse status txt parsed)"
      and "status \<noteq> 200"
      and "p2 (TOKEN_URL app) auth_header (SCOPE app) = Inr (HttpResponse 200 txt2 (Inr (JObj kvs)))"
      and "\<not> truthy (case map_of kvs (lit ''access_token'') of None \<Rightarrow> JNull | Some v \<Rightarrow> v)"
  shows "fetch_new_token (\<lambda>u a s. Inr (HttpResponse st tx (Inr (JObj kv)))) url sc ah =
           (if st \<noteq> 200 then Inl (RuntimeError (lit ''Token request failed: '' @ tx))
            else if \<not> truthy (case map_of kv (lit ''access_token'') of None \<Rightarrow> JNull | Some v \<Rightarrow> v)
            then Inl (ValueError (lit ''No access token returned from OCI IAM''))
            else Inr (case map_of kv (lit ''access_token'') of None \<Rightarrow> JNull | Some v \<Rightarrow> v))
       \<and> handler (w\<lparr>post := p1\<rparr>) config (Payload body) g =
           (\<lparr>response_data = JObj [(lit ''error'', JStr (lit ''Token request failed: '' @ txt))],
             status_code = 500,
             headers = [(''Content-Type'', ''application/json'')]\<rparr>, g1)
       \<and> handler (w\<lparr>post := p2\<rparr>) config (Payload body) g =
           (\<lparr>response_data =
               JObj [(lit ''error'', JStr (lit ''No access token returned from OCI IAM''))],
             status_code = 400,
             headers = [(''Content-Type'', ''application/json'')]\<rparr>, g1)"
  using assms
  by (simp add: handler_def handler_try_def json_loads_def build_response_def
        fetch_new_token_def py_get_def del: lit_Cons lit_Nil)

theorem exchange_failure_status_witness:
  "fetch_new_token
       (\<lambda>u a s. Inr (HttpResponse 200 (lit ''{...}'')
                         (Inr (JObj [(lit ''access_token'', JStr (lit ''eyJ4NXQi''))]))))
       (lit ''https://idcs.example/oauth2/v1/token'') (lit ''urn:opc:resource'')
       (lit ''Basic QWxhZGRpbjpvcGVuc2VzYW1l'')
     = Inr (JStr (lit ''eyJ4NXQi''))
   \<and> handler
     \<lparr>clock_lookup = 1000, clock_insert = 1001,
      post = (\<lambda>u a s. Inr (HttpResponse 401 (lit ''invalid_client'')
                              (Inl (LibraryValueError (lit ''Expecting value''))))),
      jwt_decode = (\<lambda>t. Inl (LibraryException (lit ''Not enough segments''))),
      py_str = (\<lambda>v. [])\<rparr>
     [''TOKEN_URL'' \<mapsto> lit ''https://idcs.example/oauth2/v1/token'',
      ''SCOPE'' \<mapsto> lit ''urn:opc:resource'']
     (Payload (JObj [(lit ''token'', JStr (lit ''Basic QWxhZGRpbjpvcGVuc2VzYW1l''))]))
     \<lparr>auth_cache = Map.empty, oauth_apps = []\<rparr>
   = (\<lparr>response_data =
         JObj [(lit ''error'', JStr (lit ''Token request failed: invalid_client''))],
       status_code = 500,
       headers = [(''Content-Type'', ''application/json'')]\<rparr>,
      \<lparr>auth_cache = Map.empty,
       oauth_apps = [(''iam'', \<lparr>TOKEN_URL = lit ''https://idcs.example/oauth2/v1/token'',
                               SCOPE = lit ''urn:opc:resource''\<rparr>)]\<rparr>)
   \<and> handler
     \<lparr>clock_lookup = 1000, clock_insert = 1001,
      post = (\<lambda>u a s. Inr (HttpResponse 200 (lit ''{}'') (Inr (JObj [])))),
      jwt_decode = (\<lambda>t. Inl (LibraryException (lit ''Not enough segments''))),
      py_str = (\<lambda>v. [])\<rparr>
     [''TOKEN_URL'' \<mapsto> lit ''https://idcs.example/oauth2/v1/token'',
      ''SCOPE'' \<mapsto> lit ''urn:opc:resource'']
     (Payload (JObj [(lit ''token'', JStr (lit ''Basic QWxhZGRpbjpvcGVuc2VzYW1l''))]))
     \<lparr>auth_cache = Map.empty, oauth_apps = []\<rparr>
   = (\<lparr>response_data =
         JObj [(lit ''error'', JStr (lit ''No access token returned from OCI IAM''))],
       status_code = 400,
       headers = [(''Content-Type'', ''application/json'')]\<rparr>,
      \<lparr>auth_cache = Map.empty,
       oauth_apps = [(''iam'', \<lparr>TOKEN_URL = lit ''https://idcs.example/oauth2/v1/token'',
                               SCOPE = lit ''urn:opc:resource''\<rparr>)]\<rparr>)"
proof -
  have h1: "init_context [''TOKEN_URL'' \<mapsto> lit ''https://idcs.example/oauth2/v1/token'',
                          ''SCOPE'' \<mapsto> lit ''urn:opc:resource'']
              \<lparr>auth_cache = Map.empty, oauth_apps = []\<rparr>
            = Inr \<lparr>auth_cache = Map.empty,
                   oauth_apps = [(''iam'', \<lparr>TOKEN_URL = lit ''https://idcs.example/oauth2/v1/token'',
                                           SCOPE = lit ''urn:opc:resource''\<rparr>)]\<rparr>"
    by (simp add: init_context_def del: lit_Cons lit_Nil)
  have h2: "extract_auth_header (JObj [(lit ''token'', JStr (lit ''Basic QWxhZGRpbjpvcGVuc2VzYW1l''))])
            = Inr (lit ''Basic QWxhZGRpbjpvcGVuc2VzYW1l'')"
    by (simp add: extract_auth_header_def py_get_def lit_simps del: lit_Cons lit_Nil)
  have h3: "get_cache_key (lit ''Basic QWxhZGRpbjpvcGVuc2VzYW1l'')
            = Inr (hexdigest (sha256 (concat (map utf8_char (lit ''Basic QWxhZGRpbjpvcGVuc2VzYW1l'')))))"
    by (rule get_cache_key_lit)
  have h4: "get_cached_token
              (auth_cache \<lparr>auth_cache = Map.empty,
                   oauth_apps = [(''iam'', \<lparr>TOKEN_URL = lit ''https://idcs.example/oauth2/v1/token'',
                                           SCOPE = lit ''urn:opc:resource''\<rparr>)]\<rparr>)
              (hexdigest (sha256 (concat (map utf8_char (lit ''Basic QWxhZGRpbjpvcGVuc2VzYW1l'')))))
              (clock_lookup \<lparr>clock_lookup = 1000, clock_insert = 1001,
                 post = (\<lambda>u a s. Inl (LibraryException [])),
                 jwt_decode = (\<lambda>t. Inl (LibraryException (lit ''Not enough segments''))),
                 py_str = (\<lambda>v. [])\<rparr>)
            = Inr JNull"
    by (simp add: get_cached_token_def)
  have h5: "\<not> truthy JNull" by simp
  have h6: "map_of (oauth_apps \<lparr>auth_cache = Map.empty,
                   oauth_apps = [(''iam'', \<lparr>TOKEN_URL = lit ''https://idcs.example/oauth2/v1/token'',
                                           SCOPE = lit ''urn:opc:resource''\<rparr>)]\<rparr>) ''iam''
            = Some \<lparr>TOKEN_URL = lit ''https://idcs.example/oauth2/v1/token'',
                    SCOPE = lit ''urn:opc:resource''\<rparr>"
    by simp
  have h7: "(\<lambda>u a s. Inr (HttpResponse 401 (lit ''invalid_client'')
                              (Inl (LibraryValueError (lit ''Expecting value'')))))
              (TOKEN_URL \<lparr>TOKEN_URL = lit ''https://idcs.example/oauth2/v1/token'',
                          SCOPE = lit ''urn:opc:resource''\<rparr>)
              (lit ''Basic QWxhZGRpbjpvcGVuc2VzYW1l'')
              (SCOPE \<lparr>TOKEN_URL = lit ''https://idcs.example/oauth2/v1/token'',
                      SCOPE = lit ''urn:opc:resource''\<rparr>)
            = Inr (HttpResponse 401 (lit ''invalid_client'')
                              (Inl (LibraryValueError (lit ''Expecting value''))))"
    by simp
  have h8: "(401::int) \<noteq> 200" by simp
  have h9: "(\<lambda>u a s. Inr (HttpResponse 200 (lit ''{}'') (Inr (JObj []))))
              (TOKEN_URL \<lparr>TOKEN_URL = lit ''https://idcs.example/oauth2/v1/token'',
                          SCOPE = lit ''urn:opc:resource''\<rparr>)
              (lit ''Basic QWxhZGRpbjpvcGVuc2VzYW1l'')
              (SCOPE \<lparr>TOKEN_URL = lit ''https://idcs.example/oauth2/v1/token'',
                      SCOPE = lit ''urn:opc:resource''\<rparr>)
            = Inr (HttpResponse 200 (lit ''{}'') (Inr (JObj [])))"
    by simp
  have h10: "\<not> truthy (case map_of [] (lit ''access_token'') of None \<Rightarrow> JNull | Some v \<Rightarrow> v)"
    by simp
  from exchange_failure_status [OF h1 h2 h3 h4 h5 h6 h7 h8 h9 h10,
         of 200 "lit ''{...}''" "[(lit ''access_token'', JStr (lit ''eyJ4NXQi''))]"
            "lit ''https://idcs.example/oauth2/v1/token''" "lit ''urn:opc:resource''"
            "lit ''Basic QWxhZGRpbjpvcGVuc2VzYW1l''"]
  show ?thesis
    by (simp add: lit_simps del: lit_Cons lit_Nil)
qed

text \<open>
  C2 as stated fails where the token endpoint answers 200 with the body \<open>{}\<close>: the
  invocation answers with status 400, not 500.
\<close>

theorem exchange_missing_token_counterexample:
  "status_code (fst (handler
      \<lparr>clock_lookup = 1000, clock_insert = 1001,
       post = (\<lambda>u a s. Inr (HttpResponse 200 (lit ''{}'') (Inr (JObj [])))),
       jwt_decode = (\<lambda>t. Inl (LibraryException (lit ''Not enough segments''))),
       py_str = (\<lambda>v. [])\<rparr>
      [''TOKEN_URL'' \<mapsto> lit ''https://idcs.example/oauth2/v1/token'',
       ''SCOPE'' \<mapsto> lit ''urn:opc:resource'']
      (Payload (JObj [(lit ''token'', JStr (lit ''Basic QWxhZGRpbjpvcGVuc2VzYW1l''))]))
      \<lparr>auth_cache = Map.empty, oauth_apps = []\<rparr>)) = 400"
  by (simp add: handler_def handler_try_def init_context_def json_loads_def
        extract_auth_header_def get_cached_token_def fetch_new_token_def py_get_def
        build_response_def lit_simps del: lit_Cons lit_Nil)

text \<open>
  C3, amended. An exception of configuration loading (the \<open>KeyError\<close> of a missing
  \<open>TOKEN_URL\<close> or \<open>SCOPE\<close>) answers with status 500 and leaves the state unchanged. An
  exception of credential extraction answers with status 400 when it is the validation
  error \<open>ValueError("Missing or invalid Authorization header")\<close> and with status 500
  otherwise. In general an exception of the \<open>try\<close> block answers with status 400 when
  it is a \<open>ValueError\<close> and with status 500 when it is not. In every case the body is
  the JSON object whose \<open>error\<close> field is the exception's text.
\<close>

theorem handler_exception_status:
  assumes "init_context config0 g0 = Inl ex0"
      and "init_context config g = Inr g1" and "extract_auth_header body = Inl ex1"
      and "handler_try w2 config2 req2 g2 = (Inl ex2, g2')"
  shows "handler w0 config0 req0 g0 =
           (\<lparr>response_data = JObj [(lit ''error'', JStr (str_exn ex0))],
             status_code = 500,
             headers = [(''Content-Type'', ''application/json'')]\<rparr>, g0)
       \<and> handler w config (Payload body) g =
           (\<lparr>response_data = JObj [(lit ''error'', JStr (str_exn ex1))],
             status_code =
               (if ex1 = ValueError (lit ''Missing or invalid Authorization header'')
                then 400 else 500),
             headers = [(''Content-Type'', ''application/json'')]\<rparr>, g1)
       \<and> handler w2 config2 req2 g2 =
           (\<lparr>response_data = JObj [(lit ''error'', JStr (str_exn ex2))],
             status_code = (if is_ValueError ex2 then 400 else 500),
             headers = [(''Content-Type'', ''application/json'')]\<rparr>, g2')"
proof -
  have k: "\<not> is_ValueError ex0"
    using assms(1) by (auto simp: init_context_def split: if_splits option.splits)
  have a: "handler w0 config0 req0 g0 =
           (\<lparr>response_data = JObj [(lit ''error'', JStr (str_exn ex0))],
             status_code = 500,
             headers = [(''Content-Type'', ''application/json'')]\<rparr>, g0)"
    using assms(1) k
    by (simp add: handler_def handler_try_def build_response_def del: lit_Cons lit_Nil)
  have v: "is_ValueError ex1 \<longleftrightarrow> ex1 = ValueError (lit ''Missing or invalid Authorization header'')"
    using assms(3)
    by (auto simp: extract_auth_header_def py_get_def
             simp del: lit_Cons lit_Nil split: sum.splits if_splits json.splits)
  have b: "handler w config (Payload body) g =
           (\<lparr>response_data = JObj [(lit ''error'', JStr (str_exn ex1))],
             status_code =
               (if ex1 = ValueError (lit ''Missing or invalid Authorization header'')
                then 400 else 500),
             headers = [(''Content-Type'', ''application/json'')]\<rparr>, g1)"
    using assms(2,3) v
    by (simp add: handler_def handler_try_def json_loads_def build_response_def
          del: lit_Cons lit_Nil)
  have c: "handler w2 config2 req2 g2 =
           (\<lparr>response_data = JObj [(lit ''error'', JStr (str_exn ex2))],
             status_code = (if is_ValueError ex2 then 400 else 500),
             headers = [(''Content-Type'', ''application/json'')]\<rparr>, g2')"
    using assms(4) by (simp add: handler_def build_response_def del: lit_Cons lit_Nil)
  from a b c show ?thesis by blast
qed

theorem handler_exception_status_witness:
  "init_context Map.empty \<lparr>auth_cache = Map.empty, oauth_apps = []\<rparr> = Inl (KeyError ''TOKEN_URL'')
   \<and> handler
       \<lparr>clock_lookup = 1000, clock_insert = 1001,
        post = (\<lambda>u a s. Inl (LibraryException (lit ''unreachable''))),
        jwt_decode = (\<lambda>t. Inl (LibraryException (lit ''unreachable''))),
        py_str = (\<lambda>v. [])\<rparr>
       Map.empty (Payload (JObj [])) \<lparr>auth_cache = Map.empty, oauth_apps = []\<rparr>
     = (\<lparr>response_data = JObj [(lit ''error'', JStr (str_exn (KeyError ''TOKEN_URL'')))],
         status_code = 500,
         headers = [(''Content-Type'', ''application/json'')]\<rparr>,
        \<lparr>auth_cache = Map.empty, oauth_apps = []\<rparr>)
   \<and> extract_auth_header (JObj [])
       = Inl (ValueError (lit ''Missing or invalid Authorization header''))
   \<and> handler
       \<lparr>clock_lookup = 1000, clock_insert = 1001,
        post = (\<lambda>u a s. Inl (LibraryException (lit ''unreachable''))),
        jwt_decode = (\<lambda>t. Inl (LibraryException (lit ''unreachable''))),
        py_str = (\<lambda>v. [])\<rparr>
       [''TOKEN_URL'' \<mapsto> lit ''https://idcs.example/oauth2/v1/token'',
        ''SCOPE'' \<mapsto> lit ''urn:opc:resource'']
       (Payload (JObj [])) \<lparr>auth_cache = Map.empty, oauth_apps = []\<rparr>
     = (\<lparr>response_data =
           JObj [(lit ''error'', JStr (lit ''Missing or invalid Authorization header''))],
         status_code = 400,
         headers = [(''Content-Type'', ''application/json'')]\<rparr>,
        \<lparr>auth_cache = Map.empty,
         oauth_apps = [(''iam'', \<lparr>TOKEN_URL = lit ''https://idcs.example/oauth2/v1/token'',
                                 SCOPE = lit ''urn:opc:resource''\<rparr>)]\<rparr>)
   \<and> handler
       \<lparr>clock_lookup = 1000, clock_insert = 1001,
        post = (\<lambda>u a s. Inl (LibraryException (lit ''unreachable''))),
        jwt_decode = (\<lambda>t. Inl (LibraryException (lit ''unreachable''))),
        py_str = (\<lambda>v. [])\<rparr>
       [''TOKEN_URL'' \<mapsto> lit ''https://idcs.example/oauth2/v1/token'',
        ''SCOPE'' \<mapsto> lit ''urn:opc:resource'']
       NoData \<lparr>auth_cache = Map.empty, oauth_apps = []\<rparr>
     = (\<lparr>response_data =
           JObj [(lit ''error'', JStr (str_exn (AttributeError ''NoneType'' ''getvalue'')))],
         status_code = 500,
         headers = [(''Content-Type'', ''application/json'')]\<rparr>,
        \<lparr>auth_cache = Map.empty,
         oauth_apps = [(''iam'', \<lparr>TOKEN_URL = lit ''https://idcs.example/oauth2/v1/token'',
                                 SCOPE = lit ''urn:opc:resource''\<rparr>)]\<rparr>)"
proof -
  have h1: "init_context Map.empty \<lparr>auth_cache = Map.empty, oauth_apps = []\<rparr>
            = Inl (KeyError ''TOKEN_URL'')"
    by (simp add: init_context_def)
  have h2: "init_context [''TOKEN_URL'' \<mapsto> lit ''https://idcs.example/oauth2/v1/token'',
                          ''SCOPE'' \<mapsto> lit ''urn:opc:resource'']
              \<lparr>auth_cache = Map.empty, oauth_apps = []\<rparr>
            = Inr \<lparr>auth_cache = Map.empty,
                   oauth_apps = [(''iam'', \<lparr>TOKEN_URL = lit ''https://idcs.example/oauth2/v1/token'',
                                           SCOPE = lit ''urn:opc:resource''\<rparr>)]\<rparr>"
    by (simp add: init_context_def del: lit_Cons lit_Nil)
  have h3: "extract_auth_header (JObj [])
            = Inl (ValueError (lit ''Missing or invalid Authorization header''))"
    by (simp add: extract_auth_header_def py_get_def del: lit_Cons lit_Nil)
  have h4: "handler_try
       \<lparr>clock_lookup = 1000, clock_insert = 1001,
        post = (\<lambda>u a s. Inl (LibraryException (lit ''unreachable''))),
        jwt_decode = (\<lambda>t. Inl (LibraryException (lit ''unreachable''))),
        py_str = (\<lambda>v. [])\<rparr>
       [''TOKEN_URL'' \<mapsto> lit ''https://idcs.example/oauth2/v1/token'',
        ''SCOPE'' \<mapsto> lit ''urn:opc:resource'']
       NoData \<lparr>auth_cache = Map.empty, oauth_apps = []\<rparr>
     = (Inl (AttributeError ''NoneType'' ''getvalue''),
        \<lparr>auth_cache = Map.empty,
         oauth_apps = [(''iam'', \<lparr>TOKEN_URL = lit ''https://idcs.example/oauth2/v1/token'',
                                 SCOPE = lit ''urn:opc:resource''\<rparr>)]\<rparr>)"
    by (simp add: handler_try_def h2 json_loads_def del: lit_Cons lit_Nil)
  from handler_exception_status [OF h1 h2 h3 h4,
    of "\<lparr>clock_lookup = 1000, clock_insert = 1001,
        post = (\<lambda>u a s. Inl (LibraryException (lit ''unreachable''))),
        jwt_decode = (\<lambda>t. Inl (LibraryException (lit ''unreachable''))),
        py_str = (\<lambda>v. [])\<rparr>" "Payload (JObj [])"
       "\<lparr>clock_lookup = 1000, clock_insert = 1001,
        post = (\<lambda>u a s. Inl (LibraryException (lit ''unreachable''))),
        jwt_decode = (\<lambda>t. Inl (LibraryException (lit ''unreachable''))),
        py_str = (\<lambda>v. [])\<rparr>"] h1 h3
  show ?thesis
    by (simp del: lit_Cons lit_Nil str_exn.simps(3,4))
qed

text \<open>
  C3 as stated fails for a configuration without \<open>TOKEN_URL\<close>: configuration loading
  raises \<open>KeyError\<close> and the invocation answers with status 500, not 400.
\<close>

theorem config_missing_counterexample:
  "status_code (fst (handler
      \<lparr>clock_lookup = 1000, clock_insert = 1001,
       post = (\<lambda>u a s. Inl (LibraryException (lit ''unreachable''))),
       jwt_decode = (\<lambda>t. Inl (LibraryException (lit ''unreachable''))),
       py_str = (\<lambda>v. [])\<rparr>
      [''SCOPE'' \<mapsto> lit ''urn:opc:resource'']
      (Payload (JObj [(lit ''token'', JStr (lit ''Basic QWxhZGRpbjpvcGVuc2VzYW1l''))]))
      \<lparr>auth_cache = Map.empty, oauth_apps = []\<rparr>)) = 500"
  by (simp add: handler_def handler_try_def init_context_def build_response_def
        del: lit_Cons lit_Nil)

section \<open>Cache key derivation\<close>

text \<open>
  C9, amended. For every credential without a surrogate code point, \<open>get_cache_key\<close>
  returns the lowercase hexadecimal rendering of the SHA-256 digest of the credential's
  UTF-8 bytes, a string of 64 characters drawn from \<open>0123456789abcdef\<close>. The result is a
  function of the credential alone, so two calls with the same credential agree.
\<close>

theorem get_cache_key_sha256_hex:
  assumes "\<not> list_ex is_surrogate credential"
  shows "get_cache_key credential = Inr (hexdigest (sha256 (concat (map utf8_char credential))))
         \<and> utf8_encode credential = Inr (concat (map utf8_char credential))
         \<and> length (hexdigest (sha256 (concat (map utf8_char credential)))) = 64
         \<and> set (hexdigest (sha256 (concat (map utf8_char credential))))
              \<subseteq> set (lit ''0123456789abcdef'')"
  using assms
  by (simp add: get_cache_key_def utf8_encode_def utf8_from_ok length_hexdigest length_sha256
        set_hexdigest del: lit_Cons)

theorem get_cache_key_sha256_hex_witness:
  "\<not> list_ex is_surrogate (lit ''Basic QWxhZGRpbjpvcGVuc2VzYW1l'')
   \<and> get_cache_key (lit ''Basic QWxhZGRpbjpvcGVuc2VzYW1l'')
       = Inr (hexdigest (sha256 (concat (map utf8_char (lit ''Basic QWxhZGRpbjpvcGVuc2VzYW1l'')))))
   \<and> length (hexdigest (sha256 (concat (map utf8_char (lit ''Basic QWxhZGRpbjpvcGVuc2VzYW1l''))))) = 64"
proof -
  have h: "\<not> list_ex is_surrogate (lit ''Basic QWxhZGRpbjpvcGVuc2VzYW1l'')"
    by (simp add: is_surrogate_def)
  from get_cache_key_sha256_hex [OF h] h show ?thesis by blast
qed

text \<open>
  C9 as stated fails on the credential \<open>"Basic \ud800"\<close>, which \<open>json.loads\<close> delivers
  from the payload \<open>{"token": "Basic \ud800"}\<close>: the encoding raises
  \<open>UnicodeEncodeError\<close> and no key is returned.
\<close>

theorem get_cache_key_surrogate_counterexample:
  "get_cache_key (lit ''Basic '' @ [0xD800]) = Inl (UnicodeEncodeError 0xD800 6 7)"
  by (simp add: get_cache_key_def utf8_encode_def is_surrogate_def)

end
